theory Spec2Isabelle
  imports Main "HOL-Library.Word"
begin

section \<open>Python values used by \<open>client.py\<close>\<close>

text \<open>
  \<open>bytes\<close> objects are lists of 8-bit words. A Python \<open>str\<close> is a sequence of Unicode
  code points, modelled as a list of naturals (\<open>'\x00'\<close> is \<open>0\<close>, \<open>'/'\<close> is \<open>47\<close>).
\<close>

type_synonym byte = "8 word"
type_synonym bytes = "byte list"
type_synonym str = "nat list"

text \<open>
  The exceptions that the modelled code can raise. \<open>FileNotFoundError\<close>,
  \<open>FileExistsError\<close>, \<open>NotADirectoryError\<close> and \<open>ConnectionError\<close> are subclasses of
  \<open>OSError\<close> (of which \<open>IOError\<close> is an alias); \<open>UnicodeDecodeError\<close> is a subclass of
  \<open>ValueError\<close>. \<open>OutOfModel\<close> is not a Python exception: it marks a file-system call on
  a path that the file-system model below does not cover, and no handler catches it.
\<close>

datatype exn =
    StructError
  | ConnectionError
  | ValueError
  | UnicodeDecodeError
  | TypeError
  | OSError
  | FileNotFoundError
  | FileExistsError
  | NotADirectoryError
  | OutOfModel

fun is_OSError :: "exn \<Rightarrow> bool" where
  "is_OSError OSError = True"
| "is_OSError FileNotFoundError = True"
| "is_OSError FileExistsError = True"
| "is_OSError NotADirectoryError = True"
| "is_OSError ConnectionError = True"
| "is_OSError _ = False"

fun is_ValueError :: "exn \<Rightarrow> bool" where
  "is_ValueError ValueError = True"
| "is_ValueError UnicodeDecodeError = True"
| "is_ValueError _ = False"

subsection \<open>\<open>bytes.decode()\<close>: strict UTF-8\<close>

definition cont :: "byte \<Rightarrow> bool" where
  "cont b \<longleftrightarrow> 128 \<le> unat b \<and> unat b \<le> 191"

definition cval :: "byte \<Rightarrow> nat" where
  "cval b = unat b - 128"

text \<open>
  \<open>utf8_decode\<close> is \<open>bytes.decode()\<close> with the default codec and error handler:
  \<open>None\<close> stands for \<open>UnicodeDecodeError\<close>. Overlong forms, surrogates and code points
  above \<open>0x10FFFF\<close> are rejected, as CPython does.
\<close>

fun utf8_decode :: "bytes \<Rightarrow> str option" where
  "utf8_decode [] = Some []"
| "utf8_decode (b0 # bs) =
     (if unat b0 < 128 then map_option ((#) (unat b0)) (utf8_decode bs)
      else if 194 \<le> unat b0 \<and> unat b0 \<le> 223 then
        (case bs of
           b1 # r \<Rightarrow>
             if cont b1
             then map_option ((#) ((unat b0 - 192) * 64 + cval b1)) (utf8_decode r)
             else None
         | _ \<Rightarrow> None)
      else if 224 \<le> unat b0 \<and> unat b0 \<le> 239 then
        (case bs of
           b1 # b2 # r \<Rightarrow>
             if cont b1 \<and> cont b2
                \<and> (unat b0 = 224 \<longrightarrow> 160 \<le> unat b1)
                \<and> (unat b0 = 237 \<longrightarrow> unat b1 \<le> 159)
             then map_option ((#) ((unat b0 - 224) * 4096 + cval b1 * 64 + cval b2))
                    (utf8_decode r)
             else None
         | _ \<Rightarrow> None)
      else if 240 \<le> unat b0 \<and> unat b0 \<le> 244 then
        (case bs of
           b1 # b2 # b3 # r \<Rightarrow>
             if cont b1 \<and> cont b2 \<and> cont b3
                \<and> (unat b0 = 240 \<longrightarrow> 144 \<le> unat b1)
                \<and> (unat b0 = 244 \<longrightarrow> unat b1 \<le> 143)
             then map_option
                    ((#) ((unat b0 - 240) * 262144 + cval b1 * 4096 + cval b2 * 64 + cval b3))
                    (utf8_decode r)
             else None
         | _ \<Rightarrow> None)
      else None)"

subsection \<open>String and byte-string methods\<close>

text \<open>\<open>s.strip(c)\<close> for a one-character argument, and \<open>b.rstrip(c)\<close>.\<close>

definition rstrip :: "'a \<Rightarrow> 'a list \<Rightarrow> 'a list" where
  "rstrip c xs = rev (dropWhile (\<lambda>x. x = c) (rev xs))"

definition strip :: "'a \<Rightarrow> 'a list \<Rightarrow> 'a list" where
  "strip c xs = rstrip c (dropWhile (\<lambda>x. x = c) xs)"

text \<open>Little-endian unsigned integers, as \<open>struct.unpack\<close> reads them with \<open><\<close>.\<close>

fun le_uint :: "bytes \<Rightarrow> nat" where
  "le_uint [] = 0"
| "le_uint (b # bs) = unat b + 256 * le_uint bs"

text \<open>
  \<open>bytes.fromhex\<close>: ASCII whitespace between the two-digit groups is skipped;
  \<open>None\<close> stands for \<open>ValueError\<close>.
\<close>

definition hexval :: "nat \<Rightarrow> nat option" where
  "hexval c =
     (if 48 \<le> c \<and> c \<le> 57 then Some (c - 48)
      else if 97 \<le> c \<and> c \<le> 102 then Some (c - 87)
      else if 65 \<le> c \<and> c \<le> 70 then Some (c - 55)
      else None)"

definition is_space :: "nat \<Rightarrow> bool" where
  "is_space c \<longleftrightarrow> c = 32 \<or> (9 \<le> c \<and> c \<le> 13)"

fun fromhex :: "str \<Rightarrow> bytes option" where
  "fromhex [] = Some []"
| "fromhex [c] = (if is_space c then Some [] else None)"
| "fromhex (c # d # cs) =
     (if is_space c then fromhex (d # cs)
      else (case (hexval c, hexval d) of
              (Some a, Some b) \<Rightarrow> map_option ((#) (of_nat (16 * a + b))) (fromhex cs)
            | _ \<Rightarrow> None))"

text \<open>
  \<open>os.path.join(a, b)\<close> on a POSIX host; \<open>a\<close> may be \<open>None\<close>, which \<open>os.fspath\<close> rejects
  with \<open>TypeError\<close>.
\<close>

definition os_path_join :: "str option \<Rightarrow> str \<Rightarrow> exn + str" where
  "os_path_join a b =
     (case a of
        None \<Rightarrow> Inl TypeError
      | Some path \<Rightarrow>
          Inr (if b \<noteq> [] \<and> hd b = 47 then b
               else if path = [] \<or> last path = 47 then path @ b
               else path @ [47] @ b))"

section \<open>The file system\<close>

text \<open>
  The handlers touch the server's working directory through relative paths: the
  account directory \<open>name\<close> and the file \<open>os.path.join(name, file_name)\<close> in it. The
  model has these two levels: an entry of the working directory is a regular file or
  a directory of regular files. A path string is resolved by splitting it at its
  first \<open>'/'\<close>; both components must be plain names (not empty, no \<open>'/'\<close>, no NUL, not
  \<open>'.'\<close> or \<open>'..'\<close>). Every call on a path outside this range yields \<open>OutOfModel\<close>.
\<close>

datatype node = File bytes | Dir "str \<rightharpoonup> bytes"

type_synonym fs = "str \<rightharpoonup> node"

datatype loc = Top str | Sub str str

definition simple_name :: "str \<Rightarrow> bool" where
  "simple_name p \<longleftrightarrow> p \<noteq> [] \<and> 47 \<notin> set p \<and> 0 \<notin> set p \<and> p \<noteq> [46] \<and> p \<noteq> [46, 46]"

definition resolve :: "str \<Rightarrow> loc option" where
  "resolve p =
     (let a = takeWhile (\<lambda>c. c \<noteq> 47) p; r = dropWhile (\<lambda>c. c \<noteq> 47) p
      in if r = [] then (if simple_name a then Some (Top a) else None)
         else if simple_name a \<and> simple_name (tl r) then Some (Sub a (tl r))
         else None)"

definition os_path_exists :: "fs \<Rightarrow> str \<Rightarrow> exn + bool" where
  "os_path_exists d p =
     (case resolve p of
        None \<Rightarrow> Inl OutOfModel
      | Some (Top a) \<Rightarrow> Inr (d a \<noteq> None)
      | Some (Sub a b) \<Rightarrow>
          Inr (case d a of Some (Dir m) \<Rightarrow> m b \<noteq> None | _ \<Rightarrow> False))"

definition os_makedirs :: "fs \<Rightarrow> str \<Rightarrow> exn + fs" where
  "os_makedirs d p =
     (case resolve p of
        Some (Top a) \<Rightarrow>
          (case d a of
             None \<Rightarrow> Inr (d(a \<mapsto> Dir Map.empty))
           | Some _ \<Rightarrow> Inl FileExistsError)
      | _ \<Rightarrow> Inl OutOfModel)"

definition os_remove :: "fs \<Rightarrow> str \<Rightarrow> exn + fs" where
  "os_remove d p =
     (case resolve p of
        Some (Sub a b) \<Rightarrow>
          (case d a of
             None \<Rightarrow> Inl FileNotFoundError
           | Some (File _) \<Rightarrow> Inl NotADirectoryError
           | Some (Dir m) \<Rightarrow>
               (case m b of
                  None \<Rightarrow> Inl FileNotFoundError
                | Some _ \<Rightarrow> Inr (d(a \<mapsto> Dir (m(b := None))))))
      | _ \<Rightarrow> Inl OutOfModel)"

text \<open>\<open>with open(p, 'ab') as file: file.write(data)\<close>: create the file if missing, append.\<close>

definition open_append_write :: "fs \<Rightarrow> str \<Rightarrow> bytes \<Rightarrow> exn + fs" where
  "open_append_write d p data =
     (case resolve p of
        Some (Sub a b) \<Rightarrow>
          (case d a of
             None \<Rightarrow> Inl FileNotFoundError
           | Some (File _) \<Rightarrow> Inl NotADirectoryError
           | Some (Dir m) \<Rightarrow>
               Inr (d(a \<mapsto> Dir (m(b \<mapsto> (case m b of None \<Rightarrow> [] | Some old \<Rightarrow> old) @ data)))))
      | _ \<Rightarrow> Inl OutOfModel)"

text \<open>\<open>os.listdir\<close>, as the set of entry names (the code only tests it for emptiness).\<close>

definition os_listdir :: "fs \<Rightarrow> str \<Rightarrow> exn + str set" where
  "os_listdir d p =
     (case resolve p of
        Some (Top a) \<Rightarrow>
          (case d a of
             None \<Rightarrow> Inl FileNotFoundError
           | Some (File _) \<Rightarrow> Inl NotADirectoryError
           | Some (Dir m) \<Rightarrow> Inr (dom m))
      | _ \<Rightarrow> Inl OutOfModel)"

definition os_rmdir :: "fs \<Rightarrow> str \<Rightarrow> exn + fs" where
  "os_rmdir d p =
     (case resolve p of
        Some (Top a) \<Rightarrow>
          (case d a of
             None \<Rightarrow> Inl FileNotFoundError
           | Some (File _) \<Rightarrow> Inl NotADirectoryError
           | Some (Dir m) \<Rightarrow> if dom m = {} then Inr (d(a := None)) else Inl OSError)
      | _ \<Rightarrow> Inl OutOfModel)"

text \<open>The content of the regular file at a path, if there is one (an observation).\<close>

definition read_file :: "fs \<Rightarrow> str \<Rightarrow> bytes option" where
  "read_file d p =
     (case resolve p of
        Some (Sub a b) \<Rightarrow> (case d a of Some (Dir m) \<Rightarrow> m b | _ \<Rightarrow> None)
      | Some (Top a) \<Rightarrow> (case d a of Some (File c) \<Rightarrow> Some c | _ \<Rightarrow> None)
      | None \<Rightarrow> None)"

section \<open>External collaborators\<close>

subsection \<open>Responses (\<open>protocol_handler\<close>)\<close>

text \<open>
  Modelled from the spec: the module \<open>protocol_handler\<close> is not part of the sources.
  The spec lists the outbound responses and their logical fields; \<open>send\<close> hands one to
  the connection. The \<open>client_id\<close> field is the session attribute, which is \<open>None\<close>
  until a header has been unpacked.
\<close>

datatype response =
    failed_register
  | success_register "bytes option"
  | success_login "bytes option" bytes
  | failed_login "bytes option"
  | send_aes_key "bytes option" bytes
  | general_error
  | send_file_crc "bytes option" nat str nat
  | send_final_confirmation "bytes option"

subsection \<open>The account store (\<open>database\<close>)\<close>

text \<open>
  Modelled from the spec: the class of the \<open>database\<close> object is not part of the
  sources. The spec gives its contract (\<open>account_exists(name) -> {Error, Exists, Absent}\<close>,
  \<open>create_account(id, name) -> bool\<close>, ...) and the account record (name, public key,
  wrapped session key, last-seen timestamp, file records). When a call fails is not
  specified, so the store carries a fault schedule: each call consumes one entry, and
  \<open>True\<close> makes that call report an error. An empty schedule means no further faults.
\<close>

record account =
  acc_id :: bytes
  acc_name :: str
  acc_public_key :: "bytes option"
  acc_aes_key :: "bytes option"
  acc_last_seen :: nat

record database =
  accounts :: "account list"
  file_records :: "(bytes option \<times> str \<times> str \<times> bool) list"
  faults :: "bool list"
  clock :: nat

definition db_call :: "database \<Rightarrow> bool \<times> database" where
  "db_call db = (case faults db of [] \<Rightarrow> (False, db) | f # fs \<Rightarrow> (f, db\<lparr>faults := fs\<rparr>))"

definition has_id :: "bytes option \<Rightarrow> account \<Rightarrow> bool" where
  "has_id cid a \<longleftrightarrow> cid = Some (acc_id a)"

definition update_account :: "bytes option \<Rightarrow> (account \<Rightarrow> account) \<Rightarrow> database \<Rightarrow> database" where
  "update_account cid f db = db\<lparr>accounts := map (\<lambda>a. if has_id cid a then f a else a) (accounts db)\<rparr>"

definition client_exists :: "database \<Rightarrow> bytes \<Rightarrow> bool option \<times> database" where
  "client_exists db name_bytes =
     (case db_call db of
        (True, db') \<Rightarrow> (None, db')
      | (False, db') \<Rightarrow>
          (Some (list_ex (\<lambda>a. utf8_decode name_bytes = Some (acc_name a)) (accounts db')), db'))"

definition client_exists_by_id :: "database \<Rightarrow> bytes option \<Rightarrow> str \<Rightarrow> bool option \<times> database" where
  "client_exists_by_id db cid nm =
     (case db_call db of
        (True, db') \<Rightarrow> (None, db')
      | (False, db') \<Rightarrow>
          (Some (list_ex (\<lambda>a. has_id cid a \<and> acc_name a = nm) (accounts db')), db'))"

definition register_client :: "database \<Rightarrow> bytes option \<Rightarrow> str \<Rightarrow> bool \<times> database" where
  "register_client db cid nm =
     (case db_call db of
        (True, db') \<Rightarrow> (False, db')
      | (False, db') \<Rightarrow>
          (case cid of
             None \<Rightarrow> (False, db')
           | Some i \<Rightarrow>
               if list_ex (\<lambda>a. acc_id a = i \<or> acc_name a = nm) (accounts db') then (False, db')
               else (True, db'\<lparr>accounts := accounts db' @
                       [\<lparr>acc_id = i, acc_name = nm, acc_public_key = None,
                         acc_aes_key = None, acc_last_seen = clock db'\<rparr>],
                       clock := Suc (clock db')\<rparr>)))"

definition add_public_key :: "database \<Rightarrow> bytes option \<Rightarrow> bytes \<Rightarrow> bool \<times> database" where
  "add_public_key db cid k =
     (case db_call db of
        (True, db') \<Rightarrow> (False, db')
      | (False, db') \<Rightarrow>
          if list_ex (has_id cid) (accounts db')
          then (True, update_account cid (\<lambda>a. a\<lparr>acc_public_key := Some k\<rparr>) db')
          else (False, db'))"

definition get_public_key :: "database \<Rightarrow> bytes option \<Rightarrow> bytes option \<times> database" where
  "get_public_key db cid =
     (case db_call db of
        (True, db') \<Rightarrow> (None, db')
      | (False, db') \<Rightarrow>
          (case find (has_id cid) (accounts db') of
             None \<Rightarrow> (None, db')
           | Some a \<Rightarrow> (acc_public_key a, db')))"

definition add_aes_key :: "database \<Rightarrow> bytes option \<Rightarrow> bytes \<Rightarrow> bool \<times> database" where
  "add_aes_key db cid k =
     (case db_call db of
        (True, db') \<Rightarrow> (False, db')
      | (False, db') \<Rightarrow>
          if list_ex (has_id cid) (accounts db')
          then (True, update_account cid (\<lambda>a. a\<lparr>acc_aes_key := Some k\<rparr>) db')
          else (False, db'))"

definition get_aes_key :: "database \<Rightarrow> bytes option \<Rightarrow> bytes option \<times> database" where
  "get_aes_key db cid =
     (case db_call db of
        (True, db') \<Rightarrow> (None, db')
      | (False, db') \<Rightarrow>
          (case find (has_id cid) (accounts db') of
             None \<Rightarrow> (None, db')
           | Some a \<Rightarrow> (acc_aes_key a, db')))"

definition update_last_seen :: "database \<Rightarrow> bytes option \<Rightarrow> bool \<times> database" where
  "update_last_seen db cid =
     (case db_call db of
        (True, db') \<Rightarrow> (False, db')
      | (False, db') \<Rightarrow>
          (True, (update_account cid (\<lambda>a. a\<lparr>acc_last_seen := clock db'\<rparr>) db')
                   \<lparr>clock := Suc (clock db')\<rparr>))"

definition save_file :: "database \<Rightarrow> bytes option \<Rightarrow> str \<Rightarrow> str \<Rightarrow> bool \<Rightarrow> bool \<times> database" where
  "save_file db cid file_name file_path succeeded =
     (case db_call db of
        (True, db') \<Rightarrow> (False, db')
      | (False, db') \<Rightarrow>
          (True, db'\<lparr>file_records := file_records db' @ [(cid, file_name, file_path, succeeded)]\<rparr>))"

subsection \<open>Codes, identifiers, checksum and cryptography\<close>

text \<open>
  The numeric request codes (\<open>codes.RequestCode\<close>), \<open>util.string_to_uuid\<close> and the
  checksum of \<open>cksum\<close> are not part of the sources, and the PyCryptodome primitives
  and the system random generator are libraries: all are parameters of the model.
  \<open>RSA_importKey\<close> and \<open>PKCS1_OAEP_encrypt\<close> may raise; \<open>AES_CBC_decrypt key iv data\<close>
  is the raw CBC decryption of data whose length is a multiple of the block size;
  \<open>get_random_bytes i n\<close> is the result of the \<open>i\<close>-th draw of \<open>n\<close> bytes.
\<close>

record env =
  REGISTRATION_REQUEST :: nat
  RECEIVE_PUBLIC_KEY :: nat
  LOGIN_REQUEST :: nat
  SAVE_FILE_REQUEST :: nat
  FILE_TRANSFER_SUCCESS :: nat
  CRC_MISMATCH :: nat
  FILE_TRANSFER_FAILED :: nat
  string_to_uuid :: "str \<Rightarrow> str"
  cksum :: "bytes \<Rightarrow> nat"
  RSA_importKey :: "bytes \<Rightarrow> exn + bytes"
  PKCS1_OAEP_encrypt :: "bytes \<Rightarrow> nat \<Rightarrow> bytes \<Rightarrow> exn + bytes"
  AES_CBC_decrypt :: "bytes \<Rightarrow> bytes \<Rightarrow> bytes \<Rightarrow> bytes"
  get_random_bytes :: "nat \<Rightarrow> nat \<Rightarrow> bytes"

text \<open>
  Modelled from the spec: \<open>cksum.file_crc\<close> is not part of the sources. It computes the
  digest of the file at a path and returns \<open>None\<close> when the file cannot be read.
\<close>

definition file_crc :: "env \<Rightarrow> fs \<Rightarrow> str \<Rightarrow> exn + nat option" where
  "file_crc E d p =
     (case resolve p of
        None \<Rightarrow> Inl OutOfModel
      | Some _ \<Rightarrow> Inr (map_option (cksum E) (read_file d p)))"

section \<open>The session: class \<open>Client\<close>\<close>

text \<open>
  The attributes of a \<open>Client\<close> object (\<open>client_id\<close>, \<open>running\<close>, \<open>aes_key\<close>, \<open>name\<close>,
  \<open>received_packets\<close>) together with what its methods act on: the responses sent on
  the connection so far, the account store, the disk and the number of draws made
  from the random generator. \<open>__init__\<close> sets \<open>client_id\<close>, \<open>aes_key\<close> and \<open>name\<close> to
  \<open>None\<close>, \<open>running\<close> to \<open>True\<close> and \<open>received_packets\<close> to \<open>0\<close>.
\<close>

record client =
  sent :: "response list"
  database :: database
  disk :: fs
  entropy :: nat
  client_id :: "bytes option"
  running :: bool
  aes_key :: "bytes option"
  name :: "str option"
  received_packets :: nat

definition init :: "database \<Rightarrow> fs \<Rightarrow> client" where
  "init db d =
     \<lparr>sent = [], database = db, disk = d, entropy = 0, client_id = None, running = True,
      aes_key = None, name = None, received_packets = 0\<rparr>"

definition send :: "response \<Rightarrow> client \<Rightarrow> client" where
  "send r s = s\<lparr>sent := sent s @ [r]\<rparr>"

text \<open>
  A method returns the exception that escaped it, if any, and the state it leaves
  behind. The f-strings passed to \<open>print\<close> are evaluated, so a \<open>decode()\<close> inside one
  can raise; the printing itself has no effect on the state.
\<close>

definition handle_register :: "env \<Rightarrow> client \<Rightarrow> bytes \<Rightarrow> exn option \<times> client" where
  "handle_register E s payload =
     (case client_exists (database s) payload of
        (exists, db1) \<Rightarrow>
          let s1 = s\<lparr>database := db1\<rparr> in
          (case exists of
             None \<Rightarrow> (None, send general_error s1)
           | Some True \<Rightarrow>
               (case utf8_decode payload of
                  None \<Rightarrow> (Some UnicodeDecodeError, s1)
                | Some _ \<Rightarrow> (None, (send failed_register s1)\<lparr>running := False\<rparr>))
           | Some False \<Rightarrow>
               (case utf8_decode payload of
                  None \<Rightarrow> (Some UnicodeDecodeError, s1)
                | Some nm \<Rightarrow>
                    (case fromhex (string_to_uuid E nm) of
                       None \<Rightarrow> (Some ValueError, s1)
                     | Some cid \<Rightarrow>
                         let s2 = s1\<lparr>client_id := Some cid\<rparr> in
                         (case register_client (database s2) (client_id s2) nm of
                            (ok, db2) \<Rightarrow>
                              let s3 = s2\<lparr>database := db2\<rparr> in
                              if \<not> ok then (None, send general_error s3)
                              else
                                let s4 = s3\<lparr>name := Some (butlast nm)\<rparr>
                                in (None, send (success_register (client_id s4)) s4))))))"

definition generate_aes_key :: "env \<Rightarrow> client \<Rightarrow> (exn + bool) \<times> client" where
  "generate_aes_key E s =
     (case get_public_key (database s) (client_id s) of
        (public_key, db1) \<Rightarrow>
          let s1 = s\<lparr>database := db1\<rparr> in
          (case public_key of
             None \<Rightarrow> (Inr False, send general_error s1)
           | Some blob \<Rightarrow>
               (case RSA_importKey E blob of
                  Inl e \<Rightarrow> (Inl e, s1)
                | Inr key \<Rightarrow>
                    let k = get_random_bytes E (entropy s1) 32;
                        s2 = s1\<lparr>entropy := Suc (entropy s1), aes_key := Some k\<rparr>
                    in (case PKCS1_OAEP_encrypt E key (entropy s2) k of
                          Inl e \<Rightarrow> (Inl e, s2)
                        | Inr encrypted_aes_key \<Rightarrow>
                            let s3 = s2\<lparr>entropy := Suc (entropy s2)\<rparr> in
                            (case add_aes_key (database s3) (client_id s3) encrypted_aes_key of
                               (ok, db2) \<Rightarrow>
                                 let s4 = s3\<lparr>database := db2\<rparr> in
                                 if \<not> ok then (Inr False, send general_error s4)
                                 else (Inr True, s4))))))"

definition handle_login :: "env \<Rightarrow> client \<Rightarrow> bytes \<Rightarrow> exn option \<times> client" where
  "handle_login E s payload =
     (case utf8_decode payload of
        None \<Rightarrow> (Some UnicodeDecodeError, s)
      | Some nm \<Rightarrow>
          (case client_exists_by_id (database s) (client_id s) nm of
             (exists, db1) \<Rightarrow>
               let s1 = s\<lparr>database := db1\<rparr> in
               (case exists of
                  None \<Rightarrow> (None, send general_error s1)
                | Some True \<Rightarrow>
                    let s2 = s1\<lparr>name := Some (butlast nm)\<rparr> in
                    (case generate_aes_key E s2 of
                       (Inl e, s3) \<Rightarrow> (Some e, s3)
                     | (Inr False, s3) \<Rightarrow> (None, s3)
                     | (Inr True, s3) \<Rightarrow>
                         (case get_aes_key (database s3) (client_id s3) of
                            (key, db2) \<Rightarrow>
                              let s4 = s3\<lparr>database := db2\<rparr> in
                              (case key of
                                 None \<Rightarrow> (None, send general_error s4)
                               | Some k \<Rightarrow>
                                   let s5 = send (success_login (client_id s4) k) s4 in
                                   (case update_last_seen (database s5) (client_id s5) of
                                      (_, db3) \<Rightarrow> (None, s5\<lparr>database := db3\<rparr>)))))
                | Some False \<Rightarrow> (None, send (failed_login (client_id s1)) s1))))"

definition handle_public_key :: "env \<Rightarrow> client \<Rightarrow> bytes \<Rightarrow> exn option \<times> client" where
  "handle_public_key E s payload =
     (let public_key = drop 255 payload in
      case add_public_key (database s) (client_id s) public_key of
        (ok, db1) \<Rightarrow>
          let s1 = s\<lparr>database := db1\<rparr> in
          if \<not> ok then (None, send general_error s1)
          else
            (case generate_aes_key E s1 of
               (Inl e, s2) \<Rightarrow> (Some e, s2)
             | (Inr False, s2) \<Rightarrow> (None, s2)
             | (Inr True, s2) \<Rightarrow>
                 (case get_aes_key (database s2) (client_id s2) of
                    (key, db2) \<Rightarrow>
                      let s3 = s2\<lparr>database := db2\<rparr> in
                      (case key of
                         None \<Rightarrow> (None, send general_error s3)
                       | Some k \<Rightarrow> (None, send (send_aes_key (client_id s3) k) s3)))))"

text \<open>
  \<open>decrypt_data\<close>: \<open>AES.new\<close> takes \<open>len(key)\<close>, a \<open>TypeError\<close> when the key is \<open>None\<close>, and
  rejects a key that is not 16, 24 or 32 bytes long; \<open>decrypt\<close> in CBC mode rejects data
  whose length is not a multiple of 16. Both rejections are \<open>ValueError\<close>.
\<close>

definition decrypt_data :: "env \<Rightarrow> client \<Rightarrow> bytes \<Rightarrow> exn + bytes" where
  "decrypt_data E s data =
     (let iv = replicate 16 0 in
      case aes_key s of
        None \<Rightarrow> Inl TypeError
      | Some k \<Rightarrow>
          if length k \<noteq> 16 \<and> length k \<noteq> 24 \<and> length k \<noteq> 32 then Inl ValueError
          else if length data mod 16 \<noteq> 0 then Inl ValueError
          else Inr (AES_CBC_decrypt E k iv data))"

definition handle_file_crc :: "env \<Rightarrow> client \<Rightarrow> str \<Rightarrow> str \<Rightarrow> nat \<Rightarrow> exn option \<times> client" where
  "handle_file_crc E s file_path file_name content_size =
     (case file_crc E (disk s) file_path of
        Inl e \<Rightarrow> (Some e, s)
      | Inr None \<Rightarrow> (None, (send general_error s)\<lparr>running := False\<rparr>)
      | Inr (Some crc) \<Rightarrow>
          (None, send (send_file_crc (client_id s) content_size file_name crc) s))"

text \<open>
  \<open>struct.unpack("<IIHH255s", b)\<close>: \<open>struct.error\<close> unless \<open>b\<close> has exactly 267 bytes.
\<close>

definition unpack_save_header :: "bytes \<Rightarrow> exn + nat \<times> nat \<times> nat \<times> nat \<times> bytes" where
  "unpack_save_header b =
     (if length b \<noteq> 267 then Inl StructError
      else Inr (le_uint (take 4 b), le_uint (take 4 (drop 4 b)), le_uint (take 2 (drop 8 b)),
                le_uint (take 2 (drop 10 b)), take 255 (drop 12 b)))"

text \<open>
  The body of the \<open>try\<close> statement of \<open>handle_save_file\<close>, block by block:
  creating the account directory when it is missing, removing a stale file before
  the first packet, appending to the file, and counting the packet.
\<close>

definition ensure_directory :: "client \<Rightarrow> exn option \<times> client" where
  "ensure_directory s =
     (case name s of
        None \<Rightarrow> (Some TypeError, s)
      | Some n \<Rightarrow>
          (case os_path_exists (disk s) n of
             Inl e \<Rightarrow> (Some e, s)
           | Inr True \<Rightarrow> (None, s)
           | Inr False \<Rightarrow>
               (case os_makedirs (disk s) n of
                  Inl e \<Rightarrow> (Some e, s)
                | Inr d \<Rightarrow> (None, s\<lparr>disk := d\<rparr>))))"

definition remove_stale :: "client \<Rightarrow> str \<Rightarrow> exn option \<times> client" where
  "remove_stale s file_path =
     (if received_packets s = 0 then
        (case os_path_exists (disk s) file_path of
           Inl e \<Rightarrow> (Some e, s)
         | Inr False \<Rightarrow> (None, s)
         | Inr True \<Rightarrow>
             (case os_remove (disk s) file_path of
                Inl e \<Rightarrow> (Some e, s)
              | Inr d \<Rightarrow> (None, s\<lparr>disk := d\<rparr>)))
      else (None, s))"

definition append_chunk :: "client \<Rightarrow> str \<Rightarrow> bytes \<Rightarrow> exn option \<times> client" where
  "append_chunk s file_path decrypted_data =
     (case open_append_write (disk s) file_path decrypted_data of
        Inl e \<Rightarrow> (Some e, s)
      | Inr d \<Rightarrow> (None, s\<lparr>disk := d\<rparr>))"

definition count_packet :: "env \<Rightarrow> client \<Rightarrow> nat \<Rightarrow> str \<Rightarrow> str \<Rightarrow> nat \<Rightarrow> exn option \<times> client" where
  "count_packet E s total_packets file_path file_name content_size =
     (let s1 = s\<lparr>received_packets := received_packets s + 1\<rparr>
      in if received_packets s1 = total_packets
         then handle_file_crc E (s1\<lparr>received_packets := 0\<rparr>) file_path file_name content_size
         else (None, s1))"

definition handle_save_file_try :: "env \<Rightarrow> client \<Rightarrow> bytes \<Rightarrow> exn option \<times> client" where
  "handle_save_file_try E s payload =
     (case unpack_save_header (take 267 payload) of
        Inl e \<Rightarrow> (Some e, s)
      | Inr (content_size, decrypted_size, packet_number, total_packets, raw_name) \<Rightarrow>
          (case utf8_decode raw_name of
             None \<Rightarrow> (Some UnicodeDecodeError, s)
           | Some decoded \<Rightarrow>
               (case os_path_join (name s) (strip 0 decoded) of
                  Inl e \<Rightarrow> (Some e, s)
                | Inr file_path \<Rightarrow>
                    (case ensure_directory s of
                       (Some e, s1) \<Rightarrow> (Some e, s1)
                     | (None, s1) \<Rightarrow>
                         (case decrypt_data E s1 (take 1024 (drop 267 payload)) of
                            Inl e \<Rightarrow> (Some e, s1)
                          | Inr decrypted \<Rightarrow>
                              (case remove_stale s1 file_path of
                                 (Some e, s2) \<Rightarrow> (Some e, s2)
                               | (None, s2) \<Rightarrow>
                                   (case append_chunk s2 file_path
                                           (if packet_number = total_packets
                                            then rstrip 0 decrypted else decrypted) of
                                      (Some e, s3) \<Rightarrow> (Some e, s3)
                                    | (None, s3) \<Rightarrow>
                                        count_packet E s3 total_packets file_path
                                          (strip 0 decoded) content_size)))))))"

text \<open>\<open>except (IOError, OSError, struct.error, FileNotFoundError)\<close>.\<close>

definition caught_by_save_file :: "exn \<Rightarrow> bool" where
  "caught_by_save_file e \<longleftrightarrow> is_OSError e \<or> e = StructError"

definition handle_save_file :: "env \<Rightarrow> client \<Rightarrow> bytes \<Rightarrow> exn option \<times> client" where
  "handle_save_file E s payload =
     (case handle_save_file_try E s payload of
        (None, s') \<Rightarrow> (None, s')
      | (Some e, s') \<Rightarrow>
          if caught_by_save_file e then (None, (send general_error s')\<lparr>running := False\<rparr>)
          else (Some e, s'))"

definition handle_transfer_success :: "env \<Rightarrow> client \<Rightarrow> bytes \<Rightarrow> exn option \<times> client" where
  "handle_transfer_success E s payload =
     (case utf8_decode payload of
        None \<Rightarrow> (Some UnicodeDecodeError, s)
      | Some decoded \<Rightarrow>
          let file_name = strip 0 decoded in
          (case os_path_join (name s) file_name of
             Inl e \<Rightarrow> (Some e, s)
           | Inr file_path \<Rightarrow>
               (case save_file (database s) (client_id s) file_name file_path True of
                  (ok, db1) \<Rightarrow>
                    let s1 = s\<lparr>database := db1\<rparr> in
                    if \<not> ok then (None, send general_error s1)
                    else (None, (send (send_final_confirmation (client_id s1)) s1)
                                  \<lparr>running := False\<rparr>))))"

text \<open>
  \<open>handle_transfer_failed\<close>: removing the partial file, removing the directory when
  \<open>os.listdir\<close> finds it empty, then recording the failed transfer.
\<close>

definition remove_partial :: "client \<Rightarrow> str \<Rightarrow> exn option \<times> client" where
  "remove_partial s file_path =
     (case os_path_exists (disk s) file_path of
        Inl e \<Rightarrow> (Some e, s)
      | Inr False \<Rightarrow> (None, s)
      | Inr True \<Rightarrow>
          (case os_remove (disk s) file_path of
             Inl e \<Rightarrow> (Some e, s)
           | Inr d \<Rightarrow> (None, s\<lparr>disk := d\<rparr>)))"

definition remove_empty_directory :: "client \<Rightarrow> exn option \<times> client" where
  "remove_empty_directory s =
     (case name s of
        None \<Rightarrow> (Some TypeError, s)
      | Some n \<Rightarrow>
          (case os_listdir (disk s) n of
             Inl e \<Rightarrow> (Some e, s)
           | Inr entries \<Rightarrow>
               if entries = {} then
                 (case os_rmdir (disk s) n of
                    Inl e \<Rightarrow> (Some e, s)
                  | Inr d \<Rightarrow> (None, s\<lparr>disk := d\<rparr>))
               else (None, s)))"

definition record_failed :: "client \<Rightarrow> str \<Rightarrow> str \<Rightarrow> exn option \<times> client" where
  "record_failed s file_name file_path =
     (case save_file (database s) (client_id s) file_name file_path False of
        (ok, db1) \<Rightarrow>
          let s1 = s\<lparr>database := db1\<rparr> in
          if \<not> ok then (None, send general_error s1)
          else (None, (send (send_final_confirmation (client_id s1)) s1)\<lparr>running := False\<rparr>))"

definition handle_transfer_failed :: "env \<Rightarrow> client \<Rightarrow> bytes \<Rightarrow> exn option \<times> client" where
  "handle_transfer_failed E s payload =
     (case utf8_decode payload of
        None \<Rightarrow> (Some UnicodeDecodeError, s)
      | Some decoded \<Rightarrow>
          (case os_path_join (name s) (strip 0 decoded) of
             Inl e \<Rightarrow> (Some e, s)
           | Inr file_path \<Rightarrow>
               (case remove_partial s file_path of
                  (Some e, s1) \<Rightarrow> (Some e, s1)
                | (None, s1) \<Rightarrow>
                    (case remove_empty_directory s1 of
                       (Some e, s2) \<Rightarrow> (Some e, s2)
                     | (None, s2) \<Rightarrow> record_failed s2 (strip 0 decoded) file_path))))"

section \<open>The dispatcher: \<open>get_requests\<close>\<close>

text \<open>The \<open>match\<close> statement; the cases are tried in the order of the source.\<close>

definition dispatch :: "env \<Rightarrow> client \<Rightarrow> nat \<Rightarrow> bytes \<Rightarrow> exn option \<times> client" where
  "dispatch E s code payload =
     (if code = REGISTRATION_REQUEST E then handle_register E s payload
      else if code = RECEIVE_PUBLIC_KEY E then handle_public_key E s payload
      else if code = LOGIN_REQUEST E then handle_login E s payload
      else if code = SAVE_FILE_REQUEST E then handle_save_file E s payload
      else if code = FILE_TRANSFER_SUCCESS E then handle_transfer_success E s payload
      else if code = CRC_MISMATCH E then
        (case utf8_decode payload of
           None \<Rightarrow> (Some UnicodeDecodeError, s)
         | Some _ \<Rightarrow> (None, s))
      else if code = FILE_TRANSFER_FAILED E then handle_transfer_failed E s payload
      else (None, (send general_error s)\<lparr>running := False\<rparr>))"

text \<open>
  The inbound side of the connection is the list of what successive \<open>recv\<close> calls find:
  a segment of bytes that has arrived, or a reset of the connection; at the end of
  the list the peer has closed. \<open>recv n\<close> for a positive \<open>n\<close> returns at most \<open>n\<close> bytes
  of the first segment and leaves the rest of it; it returns \<open>b''\<close> once the peer has
  closed and raises \<open>ConnectionError\<close> on a reset. \<open>recv 0\<close> returns \<open>b''\<close> at once and
  consumes nothing, also on a reset connection. A segment is never empty: empty ones
  are skipped.
\<close>

datatype event = Data bytes | Reset

fun recv :: "event list \<Rightarrow> nat \<Rightarrow> (exn + bytes) \<times> event list" where
  "recv [] n = (Inr [], [])"
| "recv (Reset # es) n =
     (if n = 0 then (Inr [], Reset # es) else (Inl ConnectionError, es))"
| "recv (Data bs # es) n =
     (if n = 0 then (Inr [], Data bs # es)
      else if bs = [] then recv es n
      else (Inr (take n bs), if length bs \<le> n then es else Data (drop n bs) # es))"

text \<open>\<open>except (struct.error, ConnectionError, ValueError)\<close>.\<close>

definition caught_by_get_requests :: "exn \<Rightarrow> bool" where
  "caught_by_get_requests e \<longleftrightarrow> e = StructError \<or> e = ConnectionError \<or> is_ValueError e"

text \<open>
  One iteration of the \<open>while\<close> loop. The iteration ends with \<open>running\<close> cleared where
  the source clears it and returns. A 23-byte header always unpacks with
  \<open><16sBHI\<close>: \<open>client_id\<close> is assigned from it before the payload is received.
\<close>

definition get_requests_body :: "env \<Rightarrow> event list \<Rightarrow> client \<Rightarrow> exn option \<times> event list \<times> client" where
  "get_requests_body E es s =
     (case recv es 23 of
        (Inl e, es1) \<Rightarrow>
          if caught_by_get_requests e then (None, es1, s\<lparr>running := False\<rparr>)
          else (Some e, es1, s)
      | (Inr header, es1) \<Rightarrow>
          if header = [] then (None, es1, s\<lparr>running := False\<rparr>)
          else if length header \<noteq> 23 then (None, es1, s\<lparr>running := False\<rparr>)
          else
            let s1 = s\<lparr>client_id := Some (take 16 header)\<rparr>;
                version = unat (header ! 16);
                code = le_uint (take 2 (drop 17 header));
                payload_size = le_uint (take 4 (drop 19 header))
            in (case recv es1 payload_size of
                  (Inl e, es2) \<Rightarrow>
                    if caught_by_get_requests e then (None, es2, s1\<lparr>running := False\<rparr>)
                    else (Some e, es2, s1)
                | (Inr payload, es2) \<Rightarrow>
                    (case dispatch E s1 code payload of (r, s2) \<Rightarrow> (r, es2, s2))))"

text \<open>What is left to receive: the measure that makes the loop terminate.\<close>

fun pending :: "event list \<Rightarrow> nat" where
  "pending [] = 0"
| "pending (Reset # es) = Suc (pending es)"
| "pending (Data bs # es) = Suc (length bs + pending es)"

lemma recv_pending_le: "pending (snd (recv es n)) \<le> pending es"
  by (induction es n rule: recv.induct) auto

lemma recv_pending_less:
  "recv es n = (Inr h, es') \<Longrightarrow> h \<noteq> [] \<Longrightarrow> pending es' < pending es"
  by (induction es n arbitrary: h es' rule: recv.induct) (auto split: if_splits)

lemma recv_pending_raise: "recv es n = (Inl e, es') \<Longrightarrow> pending es' < pending es"
  by (induction es n arbitrary: e es' rule: recv.induct) (auto split: if_splits)

lemma get_requests_body_decreases:
  assumes "running s" and "get_requests_body E es s = (r, es', s')"
  shows "2 * pending es' + (if running s' then 1 else 0)
           < 2 * pending es + (if running s then 1 else (0::nat))"
proof (cases "recv es 23")
  case (Pair a es1)
  show ?thesis
  proof (cases a)
    case (Inl e)
    with Pair have "pending es1 < pending es" by (auto dest: recv_pending_raise)
    with Pair Inl assms show ?thesis
      by (auto simp: get_requests_body_def split: if_splits)
  next
    case (Inr header)
    have le1: "pending es1 \<le> pending es"
      using recv_pending_le [of es 23] Pair by simp
    show ?thesis
    proof (cases "header = []")
      case True
      with Pair Inr assms le1 show ?thesis
        by (auto simp: get_requests_body_def)
    next
      case False
      with Pair Inr have lt: "pending es1 < pending es" by (auto dest: recv_pending_less)
      have "pending es' \<le> pending es1"
      proof (cases "length header = 23")
        case True
        obtain b es2 where r2: "recv es1 (le_uint (take 4 (drop 19 header))) = (b, es2)"
          by (cases "recv es1 (le_uint (take 4 (drop 19 header)))")
        have "pending es2 \<le> pending es1"
          using recv_pending_le [of es1 "le_uint (take 4 (drop 19 header))"] r2 by simp
        moreover have "es' = es2"
          using assms(2) Pair Inr False True r2
          by (auto simp: get_requests_body_def Let_def split: sum.splits if_splits prod.splits)
        ultimately show ?thesis by simp
      next
        case F: False
        with assms(2) Pair Inr False show ?thesis
          by (auto simp: get_requests_body_def)
      qed
      with lt show ?thesis by (auto split: if_splits)
    qed
  qed
qed

text \<open>
  \<open>get_requests\<close>: the loop runs while \<open>running\<close> holds and stops when an exception
  escapes an iteration. It returns that exception, if any, what is left of the
  inbound stream and the final state.
\<close>

function get_requests :: "env \<Rightarrow> event list \<Rightarrow> client \<Rightarrow> exn option \<times> event list \<times> client" where
  "get_requests E es s =
     (if running s then
        (case get_requests_body E es s of
           (None, es', s') \<Rightarrow> get_requests E es' s'
         | (Some e, es', s') \<Rightarrow> (Some e, es', s'))
      else (None, es, s))"
  by pat_completeness auto
termination
  apply (relation "measure (\<lambda>(E, es, s). 2 * pending es + (if running s then 1 else 0))")
   apply simp
  subgoal for E es s x y es' s'
    using get_requests_body_decreases [of s E es None es' s']
    by (auto split: if_splits)
  done

section \<open>Observations\<close>

text \<open>The fields of a save request's payload, as \<open>handle_save_file\<close> slices them.\<close>

definition content_size_of :: "bytes \<Rightarrow> nat" where
  "content_size_of p = le_uint (take 4 p)"

definition decrypted_size_of :: "bytes \<Rightarrow> nat" where
  "decrypted_size_of p = le_uint (take 4 (drop 4 p))"

definition packet_number_of :: "bytes \<Rightarrow> nat" where
  "packet_number_of p = le_uint (take 2 (drop 8 p))"

definition total_packets_of :: "bytes \<Rightarrow> nat" where
  "total_packets_of p = le_uint (take 2 (drop 10 p))"

definition file_name_field :: "bytes \<Rightarrow> bytes" where
  "file_name_field p = take 255 (drop 12 p)"

definition ciphertext_of :: "bytes \<Rightarrow> bytes" where
  "ciphertext_of p = take 1024 (drop 267 p)"

text \<open>
  The plaintext of a packet is the decryption of its ciphertext slice under the
  session key and the all-zero initialisation vector of \<open>decrypt_data\<close>.
\<close>

definition plaintext :: "env \<Rightarrow> bytes \<Rightarrow> bytes \<Rightarrow> bytes" where
  "plaintext E k p = AES_CBC_decrypt E k (replicate 16 0) (ciphertext_of p)"

text \<open>
  A transfer: the dispatcher hands the payloads of successive save requests to
  \<open>handle_save_file\<close>, as long as \<open>running\<close> holds and no exception escapes.
\<close>

fun submit_packets :: "env \<Rightarrow> client \<Rightarrow> bytes list \<Rightarrow> exn option \<times> client" where
  "submit_packets E s [] = (None, s)"
| "submit_packets E s (p # ps) =
     (if running s then
        (case handle_save_file E s p of
           (None, s') \<Rightarrow> submit_packets E s' ps
         | (Some e, s') \<Rightarrow> (Some e, s'))
      else (None, s))"

text \<open>The files of a directory of the working directory, if there is such a directory.\<close>

definition dir_content :: "fs \<Rightarrow> str \<Rightarrow> (str \<rightharpoonup> bytes)" where
  "dir_content d n = (case d n of Some (Dir m) \<Rightarrow> m | _ \<Rightarrow> Map.empty)"


text \<open>
  The assignments to \<open>client_id\<close>, stated apart from the handlers: the identifier that
  the registration handler derives, when the store reports the name absent and the
  derivation succeeds; and the value of \<open>client_id\<close> after one iteration of the loop,
  which is the header's field once a full header has been received, unless that
  registration identifier replaces it.
\<close>

definition registration_id :: "env \<Rightarrow> client \<Rightarrow> bytes \<Rightarrow> bytes option" where
  "registration_id E s payload =
     (if fst (client_exists (database s) payload) = Some False then
        (case utf8_decode payload of
           None \<Rightarrow> None
         | Some nm \<Rightarrow> fromhex (string_to_uuid E nm))
      else None)"

definition client_id_after :: "env \<Rightarrow> event list \<Rightarrow> client \<Rightarrow> bytes option" where
  "client_id_after E es s =
     (case recv es 23 of
        (Inl e, es1) \<Rightarrow> client_id s
      | (Inr header, es1) \<Rightarrow>
          if length header \<noteq> 23 then client_id s
          else
            (case recv es1 (le_uint (take 4 (drop 19 header))) of
               (Inl e, es2) \<Rightarrow> Some (take 16 header)
             | (Inr payload, es2) \<Rightarrow>
                 if le_uint (take 2 (drop 17 header)) = REGISTRATION_REQUEST E
                    \<and> registration_id E s payload \<noteq> None
                 then registration_id E s payload
                 else Some (take 16 header)))"

section \<open>Concrete instances\<close>

text \<open>
  An instance of the parameters, for evaluating the model on concrete requests: the
  request codes 1025 to 1031, an identifier of sixteen zero bytes for every name, the
  length as checksum, an RSA import that rejects the empty key blob (as
  \<open>RSA.importKey(b'')\<close> does), and toy ciphers.
\<close>

definition example_env :: env where
  "example_env =
     \<lparr>REGISTRATION_REQUEST = 1025, RECEIVE_PUBLIC_KEY = 1026, LOGIN_REQUEST = 1027,
      SAVE_FILE_REQUEST = 1028, FILE_TRANSFER_SUCCESS = 1029, CRC_MISMATCH = 1030,
      FILE_TRANSFER_FAILED = 1031,
      string_to_uuid = (\<lambda>nm. replicate 32 48),
      cksum = length,
      RSA_importKey = (\<lambda>blob. if blob = [] then Inl ValueError else Inr blob),
      PKCS1_OAEP_encrypt = (\<lambda>key i m. Inr (rev m)),
      AES_CBC_decrypt = (\<lambda>k iv data. data),
      get_random_bytes = (\<lambda>i n. replicate n (of_nat i))\<rparr>"

text \<open>An empty store, and a store with one account, registered under \<open>"a\0"\<close>.\<close>

definition empty_db :: database where
  "empty_db = \<lparr>accounts = [], file_records = [], faults = [], clock = 0\<rparr>"

definition registered_db :: database where
  "registered_db =
     empty_db\<lparr>accounts := [\<lparr>acc_id = replicate 16 0, acc_name = [97, 0],
                              acc_public_key = None, acc_aes_key = None, acc_last_seen = 0\<rparr>],
              clock := 1\<rparr>"

text \<open>A header as the client packs it: \<open>client_id\<close>, version 3, code, payload size.\<close>

definition header_of :: "bytes \<Rightarrow> nat \<Rightarrow> nat \<Rightarrow> bytes" where
  "header_of cid code n =
     cid @ [3, of_nat (code mod 256), of_nat (code div 256),
            of_nat (n mod 256), of_nat (n div 256 mod 256),
            of_nat (n div 65536 mod 256), of_nat (n div 16777216)]"

text \<open>
  A save request's payload as the client packs it: sizes (left zero), packet number,
  number of packets, the file name padded with NUL to 255 bytes, and the ciphertext.
\<close>

definition u16 :: "nat \<Rightarrow> bytes" where
  "u16 k = [of_nat (k mod 256), of_nat (k div 256)]"

definition save_payload :: "nat \<Rightarrow> nat \<Rightarrow> bytes \<Rightarrow> bytes \<Rightarrow> bytes" where
  "save_payload k n fname cipher =
     replicate 8 0 @ u16 k @ u16 n @ fname @ replicate (255 - length fname) 0 @ cipher"

text \<open>
  A session of the account \<open>a\<close> that holds a key, on an empty disk; and the same
  session with the header's \<open>client_id\<close> and a partial file \<open>a/f\<close> on disk.
\<close>

definition example_session :: client where
  "example_session =
     (init empty_db Map.empty)\<lparr>name := Some [97], aes_key := Some (replicate 32 7)\<rparr>"

definition example_transfer :: client where
  "example_transfer =
     example_session\<lparr>client_id := Some (replicate 16 1),
                     disk := [[97] \<mapsto> Dir [[102] \<mapsto> [1, 2, 3]]]\<rparr>"





section \<open>Paths\<close>

lemma resolve_simple:
  assumes "simple_name n"
  shows "resolve n = Some (Top n)"
proof -
  have n: "\<forall>c\<in>set n. c \<noteq> 47" using assms by (auto simp: simple_name_def)
  then have tw: "takeWhile (\<lambda>c. c \<noteq> 47) n = n" and dw: "dropWhile (\<lambda>c. c \<noteq> 47) n = []"
    by simp_all
  show ?thesis unfolding resolve_def Let_def tw dw using assms by simp
qed

lemma resolve_join:
  assumes "simple_name n" "simple_name f"
  shows "resolve (n @ [47] @ f) = Some (Sub n f)"
proof -
  have n: "\<forall>c\<in>set n. c \<noteq> 47" using assms(1) by (auto simp: simple_name_def)
  have "takeWhile (\<lambda>c. c \<noteq> 47) (n @ [47] @ f) = n"
    using n by (simp add: takeWhile_append2 del: append.simps)
  moreover have "dropWhile (\<lambda>c. c \<noteq> 47) (n @ [47] @ f) = 47 # f"
    using n by (simp add: dropWhile_append2)
  ultimately show ?thesis using assms by (simp add: resolve_def)
qed

lemma join_simple:
  assumes "simple_name n" "simple_name f"
  shows "os_path_join (Some n) f = Inr (n @ [47] @ f)"
proof -
  have f: "f \<noteq> []" "47 \<notin> set f" and n: "n \<noteq> []" "47 \<notin> set n"
    using assms by (auto simp: simple_name_def)
  have "hd f \<noteq> 47" using f by (metis hd_in_set)
  moreover have "last n \<noteq> 47" using n by (metis last_in_set)
  ultimately show ?thesis using f n by (simp add: os_path_join_def)
qed

section \<open>Unrecognised request codes\<close>

text \<open>
  Claim C5. A request whose code is none of the seven request codes makes the
  dispatcher send exactly one generic-error response and clear \<open>running\<close>, whatever
  the session state and the payload are; the loop then stops without reading or
  sending anything more.
\<close>

theorem unknown_code_generic_error:
  assumes "code \<noteq> REGISTRATION_REQUEST E" "code \<noteq> RECEIVE_PUBLIC_KEY E"
    "code \<noteq> LOGIN_REQUEST E" "code \<noteq> SAVE_FILE_REQUEST E"
    "code \<noteq> FILE_TRANSFER_SUCCESS E" "code \<noteq> CRC_MISMATCH E"
    "code \<noteq> FILE_TRANSFER_FAILED E"
  shows "dispatch E s code payload
           = (None, s\<lparr>sent := sent s @ [general_error], running := False\<rparr>)
       \<and> get_requests E es (s\<lparr>sent := sent s @ [general_error], running := False\<rparr>)
           = (None, es, s\<lparr>sent := sent s @ [general_error], running := False\<rparr>)"
proof
  show "dispatch E s code payload
          = (None, s\<lparr>sent := sent s @ [general_error], running := False\<rparr>)"
    using assms by (simp add: dispatch_def send_def)
  show "get_requests E es (s\<lparr>sent := sent s @ [general_error], running := False\<rparr>)
          = (None, es, s\<lparr>sent := sent s @ [general_error], running := False\<rparr>)"
    by (subst get_requests.simps) simp
qed

theorem unknown_code_generic_error_witness:
  "dispatch example_env (init empty_db Map.empty) 7 [1, 2]
     = (None, (init empty_db Map.empty)\<lparr>sent := [general_error], running := False\<rparr>)
   \<and> get_requests example_env [Data [0]]
        ((init empty_db Map.empty)\<lparr>sent := [general_error], running := False\<rparr>)
     = (None, [Data [0]],
        (init empty_db Map.empty)\<lparr>sent := [general_error], running := False\<rparr>)"
  using unknown_code_generic_error
          [of 7 example_env "init empty_db Map.empty" "[1, 2]" "[Data [0]]"]
  by (simp add: example_env_def init_def)

section \<open>Save requests\<close>

lemma unpack_save_header_ok:
  assumes "267 \<le> length p"
  shows "unpack_save_header (take 267 p)
           = Inr (content_size_of p, decrypted_size_of p, packet_number_of p,
                  total_packets_of p, file_name_field p)"
  using assms
  by (simp add: unpack_save_header_def content_size_of_def decrypted_size_of_def
      packet_number_of_def total_packets_of_def file_name_field_def drop_take min_def)

lemma unpack_save_header_short:
  "length p < 267 \<Longrightarrow> unpack_save_header (take 267 p) = Inl StructError"
  by (simp add: unpack_save_header_def)

lemma utf8_decode_ascii:
  "\<forall>b\<in>set bs. unat b < 128 \<Longrightarrow> utf8_decode bs = Some (map unat bs)"
  by (induction bs) auto

lemma le_uint_u16: "k < 65536 \<Longrightarrow> le_uint (u16 k) = k"
  by (simp add: u16_def unat_of_nat) 

lemma save_payload_fields:
  assumes "length fname \<le> 255"
  shows "267 \<le> length (save_payload k n fname cipher)"
    and "k < 65536 \<Longrightarrow> packet_number_of (save_payload k n fname cipher) = k"
    and "n < 65536 \<Longrightarrow> total_packets_of (save_payload k n fname cipher) = n"
    and "file_name_field (save_payload k n fname cipher)
           = fname @ replicate (255 - length fname) 0"
    and "ciphertext_of (save_payload k n fname cipher) = take 1024 cipher"
  using assms
  by (simp_all add: save_payload_def packet_number_of_def total_packets_of_def
      file_name_field_def ciphertext_of_def u16_def unat_of_nat)

lemma strip_padding:
  assumes "f \<noteq> []" "hd f \<noteq> c" "last f \<noteq> c"
  shows "strip c (f @ replicate m c) = f"
proof -
  have "dropWhile (\<lambda>x. x = c) (f @ replicate m c) = f @ replicate m c"
    using assms by (cases f) auto
  moreover have "dropWhile (\<lambda>x. x = c) (rev (f @ replicate m c)) = rev f"
    using assms by (cases f rule: rev_cases) (auto simp: dropWhile_append3 dropWhile_append2)
  ultimately show ?thesis by (simp add: strip_def rstrip_def)
qed

text \<open>
  Claim C9. There are save requests of at least 267 bytes whose ciphertext slice
  \<open>payload[267:1291]\<close> has a length that is not a multiple of 16; for each of them, in a
  session with a name and a key, the decryption raises \<open>ValueError\<close>, which the
  \<open>except\<close> clause of the handler does not catch: the exception leaves the handler,
  nothing is sent and \<open>running\<close> keeps its value. The only effect is the account
  directory, which is created before the decryption when it was missing.
\<close>

theorem bad_ciphertext_length_escapes:
  assumes len: "267 \<le> length payload"
    and fname: "utf8_decode (file_name_field payload) = Some t"
    and nm: "name s = Some n" "simple_name n"
    and key: "aes_key s = Some k" "length k = 16 \<or> length k = 24 \<or> length k = 32"
    and bad: "length (ciphertext_of payload) mod 16 \<noteq> 0"
  shows "handle_save_file E s payload
           = (Some ValueError,
              s\<lparr>disk := (if disk s n = None then (disk s)(n \<mapsto> Dir Map.empty) else disk s)\<rparr>)
         \<and> \<not> caught_by_save_file ValueError"
proof -
  let ?s1 = "s\<lparr>disk := (if disk s n = None then (disk s)(n \<mapsto> Dir Map.empty) else disk s)\<rparr>"
  have dec: "decrypt_data E ?s1 (take 1024 (drop 267 payload)) = Inl ValueError"
    using key bad by (auto simp: decrypt_data_def ciphertext_of_def)
  have "handle_save_file_try E s payload = (Some ValueError, ?s1)"
    using nm fname dec
    by (cases "disk s n")
       (simp_all add: handle_save_file_try_def unpack_save_header_ok [OF len] os_path_join_def
          ensure_directory_def os_path_exists_def os_makedirs_def resolve_simple Let_def)
  then show ?thesis
    by (simp add: handle_save_file_def caught_by_save_file_def)
qed

theorem bad_ciphertext_length_escapes_witness:
  "handle_save_file example_env example_session (save_payload 1 1 [102] [1, 2, 3, 4, 5])
     = (Some ValueError, example_session\<lparr>disk := [[97] \<mapsto> Dir Map.empty]\<rparr>)
   \<and> \<not> caught_by_save_file ValueError"
proof -
  let ?p = "save_payload 1 1 [102] [1, 2, 3, 4, 5]"
  have 1: "267 \<le> length ?p" by (rule save_payload_fields) simp
  have 2: "utf8_decode (file_name_field ?p) = Some (map unat ([102] @ replicate 254 0 :: bytes))"
  proof -
    have "file_name_field ?p = [102] @ replicate 254 0"
      by (simp add: save_payload_fields)
    moreover have "utf8_decode ([102] @ replicate 254 0)
                     = Some (map unat ([102] @ replicate 254 0 :: bytes))"
      by (rule utf8_decode_ascii) simp
    ultimately show ?thesis by simp
  qed
  have 3: "length (ciphertext_of ?p) mod 16 \<noteq> 0"
    by (simp add: save_payload_fields)
  have 4: "name example_session = Some [97]" "simple_name [97]"
    "aes_key example_session = Some (replicate 32 7)"
    by (simp_all add: example_session_def simple_name_def)
  show ?thesis
    using bad_ciphertext_length_escapes [OF 1 2 4(1) 4(2) 4(3) _ 3, of example_env]
    by (simp add: example_session_def init_def)
qed

section \<open>Requests before registration or login\<close>

text \<open>
  Claim C10, as amended. While \<open>name\<close> is still \<open>None\<close>, \<open>os.path.join\<close> raises a
  \<open>TypeError\<close> that no handler catches, and nothing is sent: in the save handler when
  the payload has at least 267 bytes and its file-name field is valid UTF-8, in the
  success and failure handlers when the payload is valid UTF-8. A save request whose
  payload is shorter than 267 bytes is answered with a generic error and ends the
  session: \<open>struct.error\<close> is raised before the path is joined, and it is caught.
\<close>

theorem no_name_type_error:
  assumes "name s = None"
  shows "(267 \<le> length payload \<and> utf8_decode (file_name_field payload) \<noteq> None
            \<longrightarrow> handle_save_file E s payload = (Some TypeError, s))
       \<and> (utf8_decode payload \<noteq> None
            \<longrightarrow> handle_transfer_success E s payload = (Some TypeError, s)
              \<and> handle_transfer_failed E s payload = (Some TypeError, s))
       \<and> (length payload < 267
            \<longrightarrow> handle_save_file E s payload
                  = (None, (send general_error s)\<lparr>running := False\<rparr>))"
proof (intro conjI impI)
  assume "length payload < 267"
  then have "handle_save_file_try E s payload = (Some StructError, s)"
    by (simp add: handle_save_file_try_def unpack_save_header_def)
  then show "handle_save_file E s payload = (None, (send general_error s)\<lparr>running := False\<rparr>)"
    by (simp add: handle_save_file_def caught_by_save_file_def)
next
  assume a: "267 \<le> length payload \<and> utf8_decode (file_name_field payload) \<noteq> None"
  then have "handle_save_file_try E s payload = (Some TypeError, s)"
    using assms
    by (auto simp: handle_save_file_try_def unpack_save_header_ok os_path_join_def)
  then show "handle_save_file E s payload = (Some TypeError, s)"
    by (simp add: handle_save_file_def caught_by_save_file_def)
next
  assume "utf8_decode payload \<noteq> None"
  then show "handle_transfer_success E s payload = (Some TypeError, s)"
    using assms by (auto simp: handle_transfer_success_def os_path_join_def)
next
  assume "utf8_decode payload \<noteq> None"
  then show "handle_transfer_failed E s payload = (Some TypeError, s)"
    using assms by (auto simp: handle_transfer_failed_def os_path_join_def)
qed

theorem no_name_type_error_witness:
  "handle_save_file example_env (init empty_db Map.empty) (save_payload 1 1 [102] [])
     = (Some TypeError, init empty_db Map.empty)
   \<and> handle_transfer_success example_env (init empty_db Map.empty) [102, 0]
     = (Some TypeError, init empty_db Map.empty)
   \<and> handle_transfer_failed example_env (init empty_db Map.empty) [102, 0]
     = (Some TypeError, init empty_db Map.empty)
   \<and> handle_save_file example_env (init empty_db Map.empty) [1, 2, 3]
     = (None, (init empty_db Map.empty)\<lparr>sent := [general_error], running := False\<rparr>)"
proof -
  let ?p = "save_payload 1 1 [102] []"
  have 1: "267 \<le> length ?p" by (rule save_payload_fields) simp
  have 2: "utf8_decode (file_name_field ?p) = Some (map unat ([102] @ replicate 254 0 :: bytes))"
  proof -
    have "file_name_field ?p = [102] @ replicate 254 0"
      by (simp add: save_payload_fields)
    moreover have "utf8_decode ([102] @ replicate 254 0)
                     = Some (map unat ([102] @ replicate 254 0 :: bytes))"
      by (rule utf8_decode_ascii) simp
    ultimately show ?thesis by simp
  qed
  have 3: "utf8_decode [102, 0] \<noteq> None" by simp
  have 4: "name (init empty_db Map.empty) = None" by (simp add: init_def)
  show ?thesis
    using no_name_type_error [OF 4, where payload = ?p and E = example_env] 1 2
      no_name_type_error [OF 4, where payload = "[102, 0]" and E = example_env] 3
      no_name_type_error [OF 4, where payload = "[1, 2, 3]" and E = example_env]
    by (simp add: send_def init_def)
qed

text \<open>
  The claim as stated fails: a save request shorter than 267 bytes is answered with a
  generic error and ends the session, since \<open>struct.error\<close> is caught; and a payload
  that is not valid UTF-8 raises \<open>UnicodeDecodeError\<close> before the path is joined.
\<close>

theorem no_name_counterexample:
  "handle_save_file example_env (init empty_db Map.empty) []
     = (None, (init empty_db Map.empty)\<lparr>sent := [general_error], running := False\<rparr>)
   \<and> handle_transfer_success example_env (init empty_db Map.empty) [255]
     = (Some UnicodeDecodeError, init empty_db Map.empty)"
  by (simp add: handle_save_file_def handle_save_file_try_def unpack_save_header_def
      caught_by_save_file_def send_def init_def handle_transfer_success_def)

section \<open>The CRC-mismatch request\<close>

text \<open>
  A CRC-mismatch request whose payload is valid UTF-8 changes nothing and sends
  nothing (the header has already set \<open>client_id\<close>), and the loop goes on.
\<close>

lemma crc_mismatch_decodable:
  assumes "CRC_MISMATCH E \<noteq> REGISTRATION_REQUEST E" "CRC_MISMATCH E \<noteq> RECEIVE_PUBLIC_KEY E"
    "CRC_MISMATCH E \<noteq> LOGIN_REQUEST E" "CRC_MISMATCH E \<noteq> SAVE_FILE_REQUEST E"
    "CRC_MISMATCH E \<noteq> FILE_TRANSFER_SUCCESS E"
    and "utf8_decode payload \<noteq> None"
  shows "dispatch E s (CRC_MISMATCH E) payload = (None, s)"
  using assms by (auto simp: dispatch_def)

text \<open>
  Claim C8 at a payload that is not valid UTF-8: the f-string of the log line decodes
  the payload, \<open>UnicodeDecodeError\<close> is raised outside the \<open>try\<close> statement, and
  \<open>get_requests\<close> ends with that exception instead of reading the next request.
\<close>

theorem crc_mismatch_undecodable_payload:
  "get_requests example_env [Data (header_of (replicate 16 1) 1030 1), Data [255]]
     (init empty_db Map.empty)
   = (Some UnicodeDecodeError, [],
      (init empty_db Map.empty)\<lparr>client_id := Some (replicate 16 1)\<rparr>)"
  by (subst get_requests.simps)
     (simp add: get_requests_body_def header_of_def dispatch_def example_env_def init_def)

section \<open>Reading a request\<close>

text \<open>
  An empty read and a short read of the header end the iteration with \<open>running\<close>
  cleared and nothing sent.
\<close>

lemma empty_header_read:
  "recv es 23 = (Inr [], es1) \<Longrightarrow> get_requests_body E es s = (None, es1, s\<lparr>running := False\<rparr>)"
  by (simp add: get_requests_body_def)

lemma short_header_read:
  "recv es 23 = (Inr header, es1) \<Longrightarrow> length header \<noteq> 23
     \<Longrightarrow> get_requests_body E es s = (None, es1, s\<lparr>running := False\<rparr>)"
  by (simp add: get_requests_body_def)

lemma connection_error_read:
  "recv es 23 = (Inl ConnectionError, es1)
     \<Longrightarrow> get_requests_body E es s = (None, es1, s\<lparr>running := False\<rparr>)"
  by (simp add: get_requests_body_def caught_by_get_requests_def)

lemma recv_at_most: "recv es n = (Inr bs, es') \<Longrightarrow> length bs \<le> n"
  by (induction es n rule: recv.induct) (auto split: if_splits)

text \<open>
  Claim C2 at a payload that arrives in two segments: the header announces three
  bytes, the single \<open>recv\<close> returns the one byte that has arrived, and the
  registration handler runs on it (registering the name cut short) while the other
  two bytes stay on the connection, to be read as the next header.
\<close>

theorem short_payload_read:
  "get_requests_body example_env
     [Data (header_of (replicate 16 1) 1025 3), Data [97], Data [98, 0]]
     (init empty_db Map.empty)
   = (None, [Data [98, 0]],
      \<lparr>sent = [success_register (Some (replicate 16 0))],
       database = empty_db\<lparr>accounts :=
                    [\<lparr>acc_id = replicate 16 0, acc_name = [97], acc_public_key = None,
                      acc_aes_key = None, acc_last_seen = 0\<rparr>],
                    clock := 1\<rparr>,
       disk = Map.empty, entropy = 0, client_id = Some (replicate 16 0), running = True,
       aes_key = None, name = Some [], received_packets = 0\<rparr>)"
proof -
  have "fromhex (replicate 32 48) = Some (replicate 16 0)"
    by (simp add: numeral_eq_Suc hexval_def is_space_def)
  then show ?thesis
    by (simp add: get_requests_body_def header_of_def dispatch_def example_env_def init_def
        handle_register_def client_exists_def db_call_def empty_db_def register_client_def
        send_def)
qed

section \<open>The session's \<open>client_id\<close>\<close>

text \<open>No handler but the registration handler assigns \<open>client_id\<close>.\<close>

lemma client_id_send [simp]: "client_id (send r s) = client_id s"
  by (simp add: send_def)

lemma generate_aes_key_client_id:
  "generate_aes_key E s = (r, s') \<Longrightarrow> client_id s' = client_id s"
  by (auto simp: generate_aes_key_def Let_def split: prod.splits option.splits sum.splits if_splits)

lemma handle_login_client_id: "handle_login E s p = (r, s') \<Longrightarrow> client_id s' = client_id s"
  by (auto simp: handle_login_def Let_def dest!: generate_aes_key_client_id
      split: prod.splits option.splits sum.splits bool.splits)

lemma handle_public_key_client_id:
  "handle_public_key E s p = (r, s') \<Longrightarrow> client_id s' = client_id s"
  by (auto simp: handle_public_key_def Let_def dest!: generate_aes_key_client_id
      split: prod.splits option.splits sum.splits bool.splits if_splits)

lemma handle_file_crc_client_id:
  "handle_file_crc E s fp fn cs = (r, s') \<Longrightarrow> client_id s' = client_id s"
  by (auto simp: handle_file_crc_def split: sum.splits option.splits)

lemma ensure_directory_client_id: "ensure_directory s = (r, s') \<Longrightarrow> client_id s' = client_id s"
  by (auto simp: ensure_directory_def split: sum.splits option.splits bool.splits)

lemma remove_stale_client_id: "remove_stale s fp = (r, s') \<Longrightarrow> client_id s' = client_id s"
  by (auto simp: remove_stale_def split: sum.splits option.splits bool.splits if_splits)

lemma append_chunk_client_id: "append_chunk s fp d = (r, s') \<Longrightarrow> client_id s' = client_id s"
  by (auto simp: append_chunk_def split: sum.splits)

lemma count_packet_client_id:
  "count_packet E s n fp fn cs = (r, s') \<Longrightarrow> client_id s' = client_id s"
  by (auto simp: count_packet_def Let_def dest!: handle_file_crc_client_id split: if_splits)

lemma handle_save_file_try_client_id:
  "handle_save_file_try E s p = (r, s') \<Longrightarrow> client_id s' = client_id s"
  unfolding handle_save_file_try_def
  by (auto split: prod.splits option.splits sum.splits
      dest!: ensure_directory_client_id remove_stale_client_id append_chunk_client_id
        count_packet_client_id)

lemma handle_save_file_client_id:
  "handle_save_file E s p = (r, s') \<Longrightarrow> client_id s' = client_id s"
  by (auto simp: handle_save_file_def dest!: handle_save_file_try_client_id
      split: prod.splits option.splits if_splits)

lemma handle_transfer_success_client_id:
  "handle_transfer_success E s p = (r, s') \<Longrightarrow> client_id s' = client_id s"
  by (auto simp: handle_transfer_success_def Let_def split: prod.splits option.splits sum.splits if_splits)

lemma remove_partial_client_id: "remove_partial s fp = (r, s') \<Longrightarrow> client_id s' = client_id s"
  by (auto simp: remove_partial_def split: sum.splits bool.splits)

lemma remove_empty_directory_client_id:
  "remove_empty_directory s = (r, s') \<Longrightarrow> client_id s' = client_id s"
  by (auto simp: remove_empty_directory_def split: sum.splits option.splits if_splits)

lemma record_failed_client_id: "record_failed s fn fp = (r, s') \<Longrightarrow> client_id s' = client_id s"
  by (auto simp: record_failed_def Let_def split: prod.splits if_splits)

lemma handle_transfer_failed_client_id:
  "handle_transfer_failed E s p = (r, s') \<Longrightarrow> client_id s' = client_id s"
  unfolding handle_transfer_failed_def
  by (auto split: prod.splits option.splits sum.splits
      dest!: remove_partial_client_id remove_empty_directory_client_id record_failed_client_id)

lemma handle_register_client_id:
  "client_id (snd (handle_register E s p))
     = (if registration_id E s p \<noteq> None then registration_id E s p else client_id s)"
  by (auto simp: handle_register_def registration_id_def Let_def
      split: prod.splits option.splits bool.splits)

lemma dispatch_client_id:
  "client_id (snd (dispatch E s code p))
     = (if code = REGISTRATION_REQUEST E \<and> registration_id E s p \<noteq> None
        then registration_id E s p else client_id s)"
proof -
  have "client_id (snd (handle_login E s p)) = client_id s"
    "client_id (snd (handle_public_key E s p)) = client_id s"
    "client_id (snd (handle_save_file E s p)) = client_id s"
    "client_id (snd (handle_transfer_success E s p)) = client_id s"
    "client_id (snd (handle_transfer_failed E s p)) = client_id s"
    using handle_login_client_id [of E s p] handle_public_key_client_id [of E s p]
      handle_save_file_client_id [of E s p] handle_transfer_success_client_id [of E s p]
      handle_transfer_failed_client_id [of E s p]
    by (simp_all add: prod_eq_iff)
  then show ?thesis
    by (auto simp: dispatch_def handle_register_client_id split: option.splits)
qed

lemma registration_id_client_id [simp]:
  "registration_id E (s\<lparr>client_id := c\<rparr>) p = registration_id E s p"
  by (simp add: registration_id_def)

lemma get_requests_body_client_id:
  "client_id (snd (snd (get_requests_body E es s))) = client_id_after E es s"
proof (cases "recv es 23")
  case (Pair a es1)
  show ?thesis
  proof (cases a)
    case (Inl e)
    with Pair show ?thesis
      by (simp add: get_requests_body_def client_id_after_def)
  next
    case (Inr header)
    show ?thesis
    proof (cases "length header = 23")
      case False
      with Pair Inr show ?thesis
        by (simp add: get_requests_body_def client_id_after_def)
    next
      case True
      then have ne: "header \<noteq> []" by auto
      obtain b es2 where r2: "recv es1 (le_uint (take 4 (drop 19 header))) = (b, es2)"
        by (cases "recv es1 (le_uint (take 4 (drop 19 header)))")
      show ?thesis
      proof (cases b)
        case (Inl e)
        with Pair Inr True ne r2 show ?thesis
          by (simp add: get_requests_body_def client_id_after_def Let_def)
      next
        case (Inr payload)
        let ?s1 = "s\<lparr>client_id := Some (take 16 header)\<rparr>"
        let ?code = "le_uint (take 2 (drop 17 header))"
        obtain r s2 where d: "dispatch E ?s1 ?code payload = (r, s2)"
          by (cases "dispatch E ?s1 ?code payload")
        have body: "get_requests_body E es s = (r, es2, s2)"
          using Pair \<open>a = Inr header\<close> True ne r2 Inr d
          by (simp add: get_requests_body_def Let_def)
        have "client_id s2
                = (if ?code = REGISTRATION_REQUEST E \<and> registration_id E s payload \<noteq> None
                   then registration_id E s payload else Some (take 16 header))"
          using dispatch_client_id [of E ?s1 ?code payload] d by simp
        then show ?thesis
          using Pair \<open>a = Inr header\<close> True r2 Inr body
          by (simp add: client_id_after_def)
      qed
    qed
  qed
qed

text \<open>
  Claim C4, as amended. \<open>client_id\<close> is \<open>None\<close> when the session is created. An
  iteration of the loop that receives a full 23-byte header sets it to the header's
  first 16 bytes, whatever the request code is; when the request is a registration
  and the store reports the name absent, the handler then sets it to the identifier
  derived from the name (before the account is created). An iteration that receives
  no full header leaves it as it was. This is \<open>client_id_after\<close>.
\<close>

theorem client_id_after_iteration:
  "client_id (init db d) = None
   \<and> client_id (snd (snd (get_requests_body E es s))) = client_id_after E es s"
  by (simp add: init_def get_requests_body_client_id)

theorem client_id_after_iteration_witness:
  "client_id (init empty_db Map.empty) = None
   \<and> client_id (snd (snd (get_requests_body example_env
       [Data (header_of (replicate 16 1) 1025 2), Data [97, 0]] (init empty_db Map.empty))))
     = Some (replicate 16 0)"
proof -
  have "fromhex (replicate 32 48) = Some (replicate 16 0)"
    by (simp add: numeral_eq_Suc hexval_def is_space_def)
  then show ?thesis
    using client_id_after_iteration
            [of empty_db Map.empty example_env
                "[Data (header_of (replicate 16 1) 1025 2), Data [97, 0]]"
                "init empty_db Map.empty"]
    by (simp add: client_id_after_def registration_id_def header_of_def example_env_def
        init_def client_exists_def db_call_def empty_db_def)
qed

text \<open>
  The claim as stated fails: two CRC-mismatch requests, neither a registration nor a
  login, assign \<open>client_id\<close> one after the other, each from its own header.
\<close>

theorem client_id_counterexample:
  "get_requests_body example_env [Data (header_of (replicate 16 1) 1030 0)]
       (init empty_db Map.empty)
     = (None, [], (init empty_db Map.empty)\<lparr>client_id := Some (replicate 16 1)\<rparr>)
   \<and> get_requests_body example_env [Data (header_of (replicate 16 2) 1030 0)]
       ((init empty_db Map.empty)\<lparr>client_id := Some (replicate 16 1)\<rparr>)
     = (None, [], (init empty_db Map.empty)\<lparr>client_id := Some (replicate 16 2)\<rparr>)"
  by (simp add: get_requests_body_def header_of_def dispatch_def example_env_def init_def)

section \<open>Registration under a name that is taken\<close>

lemma db_call_accounts [simp]: "accounts (snd (db_call db)) = accounts db"
  by (simp add: db_call_def split: list.splits)

lemma db_call_file_records [simp]: "file_records (snd (db_call db)) = file_records db"
  by (simp add: db_call_def split: list.splits)

lemma client_exists_accounts: "accounts (snd (client_exists db p)) = accounts db"
  using db_call_accounts [of db]
  by (cases "db_call db") (auto simp: client_exists_def split: bool.splits)

lemma register_existing_name:
  assumes "fst (client_exists (database s) payload) = Some True"
    and "utf8_decode payload = Some nm"
  shows "handle_register E s payload
           = (None, s\<lparr>database := snd (client_exists (database s) payload),
                      sent := sent s @ [failed_register], running := False\<rparr>)"
  using assms
  by (cases "client_exists (database s) payload") (simp add: handle_register_def send_def)

text \<open>
  Claim C6. When the store answers that the name of a registration request exists,
  the handler sends a registration-failed response and clears \<open>running\<close>; its only
  call to the store is the lookup, so the accounts, and with them the identifier of
  the existing account, are as they were, and so is the session's \<open>client_id\<close>.
\<close>

theorem registration_of_existing_name:
  assumes "fst (client_exists (database s) payload) = Some True"
    and "utf8_decode payload = Some nm"
  shows "handle_register E s payload
           = (None, s\<lparr>database := snd (client_exists (database s) payload),
                      sent := sent s @ [failed_register], running := False\<rparr>)
       \<and> accounts (snd (client_exists (database s) payload)) = accounts (database s)"
  using register_existing_name [OF assms] client_exists_accounts by simp

theorem registration_of_existing_name_witness:
  "handle_register example_env (init registered_db Map.empty) [97, 0]
     = (None, (init registered_db Map.empty)\<lparr>sent := [failed_register], running := False\<rparr>)
   \<and> accounts registered_db
     = [\<lparr>acc_id = replicate 16 0, acc_name = [97, 0], acc_public_key = None,
         acc_aes_key = None, acc_last_seen = 0\<rparr>]"
proof -
  have 1: "client_exists (database (init registered_db Map.empty)) [97, 0]
             = (Some True, registered_db)"
    by (simp add: client_exists_def init_def registered_db_def db_call_def empty_db_def)
  have 2: "utf8_decode [97, 0] = Some [97, 0]" by simp
  show ?thesis
    using registration_of_existing_name
            [of "init registered_db Map.empty" "[97, 0]" "[97, 0]" example_env] 1 2
    by (simp add: init_def registered_db_def)
qed

text \<open>
  In particular the second of two registrations under one name fails, in the same
  session or in another one on the same store, unless the store faults.
\<close>

lemma client_exists_registered:
  assumes "utf8_decode payload = Some nm"
    and "list_ex (\<lambda>a. acc_name a = nm) (accounts db)"
    and "\<not> fst (db_call db)"
  shows "fst (client_exists db payload) = Some True"
  using assms db_call_accounts [of db]
  by (cases "db_call db") (auto simp: client_exists_def list_ex_iff)

lemma register_success_account:
  assumes "handle_register E s payload = (None, s1)"
    and "sent s1 = sent s @ [success_register c]"
  shows "\<exists>nm. utf8_decode payload = Some nm
            \<and> list_ex (\<lambda>a. acc_name a = nm) (accounts (database s1))"
  using assms
  by (auto simp: handle_register_def send_def Let_def register_client_def
      split: prod.splits option.splits bool.splits if_splits)

lemma register_twice:
  assumes "handle_register E s payload = (None, s1)"
    and "sent s1 = sent s @ [success_register c]"
    and "database s2 = database s1"
    and "\<not> fst (db_call (database s2))"
  shows "handle_register E s2 payload
           = (None, s2\<lparr>database := snd (client_exists (database s2) payload),
                       sent := sent s2 @ [failed_register], running := False\<rparr>)
       \<and> accounts (snd (client_exists (database s2) payload)) = accounts (database s1)"
proof -
  obtain nm where nm: "utf8_decode payload = Some nm"
    "list_ex (\<lambda>a. acc_name a = nm) (accounts (database s1))"
    using register_success_account [OF assms(1,2)] by blast
  then have "fst (client_exists (database s2) payload) = Some True"
    using client_exists_registered [of payload nm "database s2"] assms(3,4) by simp
  then show ?thesis
    using register_existing_name [of s2 payload nm E] nm(1) assms(3)
    by (simp add: client_exists_accounts)
qed

section \<open>The failure outcome\<close>

lemma remove_partial_in_directory:
  assumes "simple_name n" "simple_name f" "disk s n = Some (Dir m)"
  shows "remove_partial s (n @ [47] @ f)
           = (None, s\<lparr>disk := (disk s)(n \<mapsto> Dir (m(f := None)))\<rparr>)"
proof (cases "m f")
  case None
  then have "m(f := None) = m" by (simp add: fun_upd_idem)
  then have "(disk s)(n \<mapsto> Dir (m(f := None))) = disk s"
    using assms(3) by (simp add: fun_upd_idem)
  then show ?thesis
    using assms None
    by (simp add: remove_partial_def os_path_exists_def resolve_join del: append.simps)
next
  case (Some c)
  then show ?thesis
    using assms
    by (simp add: remove_partial_def os_path_exists_def os_remove_def resolve_join
        del: append.simps)
qed

lemma remove_empty_directory_existing:
  assumes "name s = Some n" "simple_name n" "disk s n = Some (Dir m)"
  shows "remove_empty_directory s
           = (None, s\<lparr>disk := (if dom m = {} then (disk s)(n := None) else disk s)\<rparr>)"
  using assms
  by (simp add: remove_empty_directory_def os_listdir_def os_rmdir_def resolve_simple)

lemma save_file_result:
  "save_file db cid fn fp b
     = (if fst (db_call db) then (False, snd (db_call db))
        else (True, (snd (db_call db))\<lparr>file_records := file_records db @ [(cid, fn, fp, b)]\<rparr>))"
  using db_call_file_records [of db]
  by (cases "db_call db") (auto simp: save_file_def)

lemma transfer_failed_result:
  assumes nm: "name s = Some n" "simple_name n"
    and fn: "utf8_decode payload = Some t" "strip 0 t = f" "simple_name f"
    and dir: "disk s n = Some (Dir m)"
    and rec: "save_file (database s) (client_id s) f (n @ [47] @ f) False = (ok, db')"
  shows "handle_transfer_failed E s payload
           = (None,
              s\<lparr>disk := (if dom m \<subseteq> {f} then (disk s)(n := None)
                         else (disk s)(n \<mapsto> Dir (m(f := None)))),
                database := db',
                sent := sent s @ [if ok then send_final_confirmation (client_id s)
                                  else general_error],
                running := running s \<and> \<not> ok\<rparr>)
       \<and> (ok \<longleftrightarrow> \<not> fst (db_call (database s)))
       \<and> (ok \<longrightarrow> file_records db'
                    = file_records (database s) @ [(client_id s, f, n @ [47] @ f, False)])"
proof -
  let ?s1 = "s\<lparr>disk := (disk s)(n \<mapsto> Dir (m(f := None)))\<rparr>"
  let ?d2 = "if dom m \<subseteq> {f} then (disk s)(n := None) else (disk s)(n \<mapsto> Dir (m(f := None)))"
  have j: "os_path_join (name s) (strip 0 t) = Inr (n @ [47] @ f)"
    using nm fn join_simple by simp
  have 1: "remove_partial s (n @ [47] @ f) = (None, ?s1)"
    using remove_partial_in_directory [OF nm(2) fn(3) dir] .
  have e: "dom (m(f := None)) = {} \<longleftrightarrow> dom m \<subseteq> {f}" by auto
  have 2: "remove_empty_directory ?s1 = (None, s\<lparr>disk := ?d2\<rparr>)"
    using remove_empty_directory_existing [of ?s1 n "m(f := None)"] nm e by simp
  have 3: "record_failed (s\<lparr>disk := ?d2\<rparr>) f (n @ [47] @ f)
             = (None, s\<lparr>disk := ?d2, database := db',
                  sent := sent s @ [if ok then send_final_confirmation (client_id s)
                                    else general_error],
                  running := running s \<and> \<not> ok\<rparr>)"
    using rec by (simp add: record_failed_def send_def del: append.simps)
  have "handle_transfer_failed E s payload
          = (None, s\<lparr>disk := ?d2, database := db',
               sent := sent s @ [if ok then send_final_confirmation (client_id s)
                                 else general_error],
               running := running s \<and> \<not> ok\<rparr>)"
    unfolding handle_transfer_failed_def using fn(1,2) j 1 2 3
    by (simp del: append.simps)
  moreover have "ok \<longleftrightarrow> \<not> fst (db_call (database s))"
    using rec by (auto simp: save_file_result split: if_splits)
  moreover have "ok \<longrightarrow> file_records db'
                    = file_records (database s) @ [(client_id s, f, n @ [47] @ f, False)]"
    using rec by (auto simp: save_file_result split: if_splits)
  ultimately show ?thesis by blast
qed

text \<open>
  Claim C3, as amended. For a failure request whose payload decodes to a plain file
  name, in a session whose name is set and whose directory exists, the handler
  deletes the partial file if there is one, removes the directory if and only if it
  holds no other file, and asks the store to record the failed transfer. When the
  store records it, the handler sends the final confirmation and clears \<open>running\<close>;
  when the store reports a failure, it sends a generic error and leaves \<open>running\<close>
  as it was.
\<close>

theorem transfer_failed_cleanup:
  assumes nm: "name s = Some n" "simple_name n"
    and fn: "utf8_decode payload = Some t" "strip 0 t = f" "simple_name f"
    and dir: "disk s n = Some (Dir m)"
    and rec: "save_file (database s) (client_id s) f (n @ [47] @ f) False = (ok, db')"
  shows "handle_transfer_failed E s payload
           = (None,
              s\<lparr>disk := (if dom m \<subseteq> {f} then (disk s)(n := None)
                         else (disk s)(n \<mapsto> Dir (m(f := None)))),
                database := db',
                sent := sent s @ [if ok then send_final_confirmation (client_id s)
                                  else general_error],
                running := running s \<and> \<not> ok\<rparr>)
       \<and> (ok \<longleftrightarrow> \<not> fst (db_call (database s)))
       \<and> (ok \<longrightarrow> file_records db'
                    = file_records (database s) @ [(client_id s, f, n @ [47] @ f, False)])"
  using transfer_failed_result [OF assms] .

theorem transfer_failed_cleanup_witness:
  "handle_transfer_failed example_env example_transfer [102, 0]
     = (None,
        example_transfer\<lparr>disk := Map.empty,
          database := empty_db\<lparr>file_records :=
                        [(Some (replicate 16 1), [102], [97, 47, 102], False)]\<rparr>,
          sent := [send_final_confirmation (Some (replicate 16 1))],
          running := False\<rparr>)"
proof -
  have 1: "name example_transfer = Some [97]" "simple_name [97]" "simple_name [102]"
    "utf8_decode [102, 0] = Some [102, 0]" "strip 0 [102, 0] = [102::nat]"
    "disk example_transfer [97] = Some (Dir [[102] \<mapsto> [1, 2, 3]])"
    by (simp_all add: example_transfer_def example_session_def init_def simple_name_def
        strip_def rstrip_def)
  have 2: "save_file (database example_transfer) (client_id example_transfer) [102]
             ([97] @ [47] @ [102]) False
           = (True, empty_db\<lparr>file_records :=
                        [(Some (replicate 16 1), [102], [97, 47, 102], False)]\<rparr>)"
    by (simp add: save_file_def db_call_def example_transfer_def example_session_def init_def
        empty_db_def)
  show ?thesis
    using transfer_failed_cleanup [OF 1(1) 1(2) 1(4) 1(5) 1(3) 1(6) 2, of example_env]
    by (simp add: example_transfer_def example_session_def init_def)
qed

text \<open>
  The claim as stated fails when the store cannot record the transfer: the files are
  removed all the same, a generic error is sent instead of the final confirmation,
  nothing is recorded and \<open>running\<close> stays \<open>True\<close>.
\<close>

theorem transfer_failed_counterexample:
  "handle_transfer_failed example_env
       (example_transfer\<lparr>database := empty_db\<lparr>faults := [True]\<rparr>\<rparr>) [102, 0]
     = (None,
        \<lparr>sent = [general_error], database = empty_db, disk = Map.empty, entropy = 0,
         client_id = Some (replicate 16 1), running = True,
         aes_key = Some (replicate 32 7), name = Some [97], received_packets = 0\<rparr>)"
proof -
  let ?s = "example_transfer\<lparr>database := empty_db\<lparr>faults := [True]\<rparr>\<rparr>"
  have 1: "name ?s = Some [97]" "simple_name [97]" "simple_name [102]"
    "utf8_decode [102, 0] = Some [102, 0]" "strip 0 [102, 0] = [102::nat]"
    "disk ?s [97] = Some (Dir [[102] \<mapsto> [1, 2, 3]])"
    by (simp_all add: example_transfer_def example_session_def init_def simple_name_def
        strip_def rstrip_def)
  have 2: "save_file (database ?s) (client_id ?s) [102] ([97] @ [47] @ [102]) False
           = (False, empty_db)"
    by (simp add: save_file_def db_call_def empty_db_def)
  show ?thesis
    using transfer_failed_result [OF 1(1) 1(2) 1(4) 1(5) 1(3) 1(6) 2, of example_env]
    by (simp add: example_transfer_def example_session_def init_def)
qed

section \<open>Generic errors and the end of the session\<close>









































section \<open>A transfer in order\<close>

text \<open>
  One packet: the handler appends the plaintext to the file, stripped of its trailing
  zero bytes exactly when \<open>packet_number\<close> equals \<open>total_packets\<close>; before the first
  packet a stale file is removed. With the last packet counted, the checksum of the
  file is sent and the count starts again.
\<close>

lemma save_packet:
  fixes E s p n k f t
  defines "m0 \<equiv> dir_content (disk s) n"
  defines "old \<equiv> (if received_packets s = 0 then []
                   else (case m0 f of None \<Rightarrow> [] | Some c \<Rightarrow> c))"
  defines "data \<equiv> (if packet_number_of p = total_packets_of p
                     then rstrip 0 (plaintext E k p) else plaintext E k p)"
  defines "s' \<equiv> s\<lparr>disk := (disk s)(n \<mapsto> Dir (m0(f \<mapsto> old @ data))),
                    received_packets := received_packets s + 1\<rparr>"
  assumes nm: "name s = Some n" "simple_name n"
    and key: "aes_key s = Some k" "length k = 16 \<or> length k = 24 \<or> length k = 32"
    and p: "267 \<le> length p" "utf8_decode (file_name_field p) = Some t"
      "length (ciphertext_of p) mod 16 = 0"
    and fname: "strip 0 t = f" "simple_name f"
    and dir: "\<forall>c. disk s n \<noteq> Some (File c)"
  shows "handle_save_file E s p
           = (if received_packets s + 1 = total_packets_of p
              then (None, send (send_file_crc (client_id s) (content_size_of p) f
                                  (cksum E (old @ data)))
                            (s'\<lparr>received_packets := 0\<rparr>))
              else (None, s'))"
proof -
  let ?path = "n @ [47] @ f"
  let ?s1 = "s\<lparr>disk := (disk s)(n \<mapsto> Dir m0)\<rparr>"
  let ?m1 = "if received_packets s = 0 then m0(f := None) else m0"
  let ?s2 = "s\<lparr>disk := (disk s)(n \<mapsto> Dir ?m1)\<rparr>"
  let ?s3 = "s\<lparr>disk := (disk s)(n \<mapsto> Dir (m0(f \<mapsto> old @ data)))\<rparr>"
  have j: "os_path_join (name s) (strip 0 t) = Inr ?path"
    using nm fname join_simple by simp
  have rp: "resolve ?path = Some (Sub n f)" using resolve_join nm(2) fname(2) by simp
  have rn: "resolve n = Some (Top n)" using resolve_simple nm(2) by simp
  have 1: "ensure_directory s = (None, ?s1)"
  proof (cases "disk s n")
    case None
    then show ?thesis
      using nm rn by (simp add: ensure_directory_def os_path_exists_def os_makedirs_def
          m0_def dir_content_def)
  next
    case (Some x)
    then obtain m where m: "disk s n = Some (Dir m)" using dir by (cases x) auto
    then have "(disk s)(n \<mapsto> Dir m0) = disk s"
      by (simp add: m0_def dir_content_def fun_upd_idem)
    then show ?thesis
      using nm rn m by (simp add: ensure_directory_def os_path_exists_def)
  qed
  have 2: "decrypt_data E ?s1 (take 1024 (drop 267 p)) = Inr (plaintext E k p)"
    using key p(3) by (auto simp: decrypt_data_def plaintext_def ciphertext_of_def)
  have 3: "remove_stale ?s1 ?path = (None, ?s2)"
  proof (cases "received_packets s = 0 \<and> m0 f \<noteq> None")
    case True
    then show ?thesis
      using rp by (auto simp: remove_stale_def os_path_exists_def os_remove_def)
  next
    case False
    then have "?m1 = m0" by (auto simp: fun_upd_idem)
    then show ?thesis
      using rp False by (auto simp: remove_stale_def os_path_exists_def)
  qed
  have "(case ?m1 f of None \<Rightarrow> [] | Some c \<Rightarrow> c) = old"
    by (simp add: old_def)
  then have 4: "append_chunk ?s2 ?path data = (None, ?s3)"
    using rp by (simp add: append_chunk_def open_append_write_def)
  have crc: "file_crc E (disk ?s3) ?path = Inr (Some (cksum E (old @ data)))"
    using rp by (simp add: file_crc_def read_file_def)
  have 5: "count_packet E ?s3 (total_packets_of p) ?path f (content_size_of p)
             = (if received_packets s + 1 = total_packets_of p
                then (None, send (send_file_crc (client_id s) (content_size_of p) f
                                    (cksum E (old @ data)))
                              (s'\<lparr>received_packets := 0\<rparr>))
                else (None, s'))"
    using crc by (simp add: count_packet_def handle_file_crc_def s'_def send_def)
  have "handle_save_file_try E s p
          = (if received_packets s + 1 = total_packets_of p
             then (None, send (send_file_crc (client_id s) (content_size_of p) f
                                 (cksum E (old @ data)))
                           (s'\<lparr>received_packets := 0\<rparr>))
             else (None, s'))"
    unfolding handle_save_file_try_def unpack_save_header_ok [OF p(1)]
    using p(2) j 1 2 3 4 5 fname(1) data_def
    by (simp del: append.simps)
  then show ?thesis by (simp add: handle_save_file_def)
qed

lemma read_file_in_directory:
  assumes "simple_name n" "simple_name f"
  shows "read_file d (n @ [47] @ f) = dir_content d n f"
  using resolve_join [OF assms]
  by (auto simp: read_file_def dir_content_def split: option.splits node.splits)

lemma submit_packets_from:
  assumes nm: "simple_name n" and fname: "strip 0 t = f" "simple_name f"
    and key: "length k = 16 \<or> length k = 24 \<or> length k = 32"
  shows "name s = Some n \<Longrightarrow> aes_key s = Some k \<Longrightarrow> running s
    \<Longrightarrow> \<forall>c. disk s n \<noteq> Some (File c)
    \<Longrightarrow> ps \<noteq> []
    \<Longrightarrow> \<forall>i<length ps. 267 \<le> length (ps ! i)
          \<and> packet_number_of (ps ! i) = received_packets s + i + 1
          \<and> total_packets_of (ps ! i) = received_packets s + length ps
          \<and> utf8_decode (file_name_field (ps ! i)) = Some t
          \<and> length (ciphertext_of (ps ! i)) mod 16 = 0
    \<Longrightarrow> acc = (if received_packets s = 0 then []
               else (case dir_content (disk s) n f of None \<Rightarrow> [] | Some c \<Rightarrow> c))
    \<Longrightarrow> \<exists>s'. submit_packets E s ps = (None, s')
           \<and> read_file (disk s') (n @ [47] @ f)
               = Some (acc @ concat (map (plaintext E k) (butlast ps))
                         @ rstrip 0 (plaintext E k (last ps)))"
proof (induction ps arbitrary: s acc)
  case Nil
  then show ?case by simp
next
  case (Cons p ps)
  let ?r = "received_packets s"
  have p0: "267 \<le> length p" "packet_number_of p = ?r + 1"
    "total_packets_of p = ?r + length (p # ps)"
    "utf8_decode (file_name_field p) = Some t" "length (ciphertext_of p) mod 16 = 0"
    using Cons.prems(6) by auto
  let ?data = "if packet_number_of p = total_packets_of p
               then rstrip 0 (plaintext E k p) else plaintext E k p"
  let ?s' = "s\<lparr>disk := (disk s)(n \<mapsto> Dir ((dir_content (disk s) n)(f \<mapsto> acc @ ?data))),
               received_packets := ?r + 1\<rparr>"
  have step: "handle_save_file E s p
           = (if ?r + 1 = total_packets_of p
              then (None, send (send_file_crc (client_id s) (content_size_of p) f
                                  (cksum E (acc @ ?data)))
                            (?s'\<lparr>received_packets := 0\<rparr>))
              else (None, ?s'))"
    using save_packet [OF Cons.prems(1) nm Cons.prems(2) key p0(1,4,5) fname Cons.prems(4), of E]
      Cons.prems(7)
    by simp
  have rf: "read_file d (n @ 47 # f) = dir_content d n f" for d
    using read_file_in_directory [OF nm fname(2)] by simp
  show ?case
  proof (cases ps)
    case Nil
    then have last: "?r + 1 = total_packets_of p" "packet_number_of p = total_packets_of p"
      using p0 by auto
    have "read_file (disk (send (send_file_crc (client_id s) (content_size_of p) f
                                  (cksum E (acc @ ?data)))
                            (?s'\<lparr>received_packets := 0\<rparr>))) (n @ [47] @ f)
            = Some (acc @ rstrip 0 (plaintext E k p))"
      using last by (simp add: rf send_def) (simp add: dir_content_def)
    then show ?thesis
      using step last Nil Cons.prems(3) by simp
  next
    case (Cons q qs)
    then have more: "?r + 1 \<noteq> total_packets_of p" "packet_number_of p \<noteq> total_packets_of p"
      using p0 by auto
    have step': "handle_save_file E s p = (None, ?s')" using step more by simp
    have data: "?data = plaintext E k p" using more by simp
    have good: "\<forall>i<length ps. 267 \<le> length (ps ! i)
          \<and> packet_number_of (ps ! i) = received_packets ?s' + i + 1
          \<and> total_packets_of (ps ! i) = received_packets ?s' + length ps
          \<and> utf8_decode (file_name_field (ps ! i)) = Some t
          \<and> length (ciphertext_of (ps ! i)) mod 16 = 0"
    proof (intro allI impI)
      fix i assume "i < length ps"
      then have "Suc i < length (p # ps)" by simp
      from Cons.prems(6) [rule_format, OF this]
      show "267 \<le> length (ps ! i)
          \<and> packet_number_of (ps ! i) = received_packets ?s' + i + 1
          \<and> total_packets_of (ps ! i) = received_packets ?s' + length ps
          \<and> utf8_decode (file_name_field (ps ! i)) = Some t
          \<and> length (ciphertext_of (ps ! i)) mod 16 = 0"
        by simp
    qed
    have acc': "acc @ plaintext E k p
                  = (if received_packets ?s' = 0 then []
                     else (case dir_content (disk ?s') n f of None \<Rightarrow> [] | Some c \<Rightarrow> c))"
      using data by (simp add: dir_content_def)
    have "\<exists>s''. submit_packets E ?s' ps = (None, s'')
           \<and> read_file (disk s'') (n @ [47] @ f)
               = Some ((acc @ plaintext E k p) @ concat (map (plaintext E k) (butlast ps))
                         @ rstrip 0 (plaintext E k (last ps)))"
      using Cons.prems(1,2,3) Cons
      by (intro Cons.IH [OF _ _ _ _ _ good acc']) simp_all
    then show ?thesis
      using step' Cons.prems(3) Cons by auto
  qed
qed

lemma rstrip_padding:
  assumes "f \<noteq> []" "last f \<noteq> c"
  shows "rstrip c (f @ replicate m c) = f"
proof -
  have "dropWhile (\<lambda>x. x = c) (rev (f @ replicate m c)) = rev f"
    using assms by (cases f rule: rev_cases) (auto simp: dropWhile_append3 dropWhile_append2)
  then show ?thesis by (simp add: rstrip_def)
qed

text \<open>
  Claim C1. When the packets 1 to N of a file are submitted in order to a session
  with a name, a key and no packet counted yet, every save request is handled
  without an exception, and afterwards the file holds the plaintexts of the packets
  one after the other, the trailing zero bytes removed from the last one only. The
  names are plain names, the ciphertext slices have a multiple of 16 bytes, and the
  account name is not that of a regular file.
\<close>

theorem in_order_transfer_reassembles:
  assumes session: "name s = Some n" "aes_key s = Some k" "running s"
      "received_packets s = 0"
    and names: "simple_name n" "strip 0 t = f" "simple_name f"
    and key: "length k = 16 \<or> length k = 24 \<or> length k = 32"
    and dir: "\<forall>c. disk s n \<noteq> Some (File c)"
    and packets: "ps \<noteq> []"
      "\<forall>i<length ps. 267 \<le> length (ps ! i)
          \<and> packet_number_of (ps ! i) = i + 1
          \<and> total_packets_of (ps ! i) = length ps
          \<and> utf8_decode (file_name_field (ps ! i)) = Some t
          \<and> length (ciphertext_of (ps ! i)) mod 16 = 0"
  shows "\<exists>s'. submit_packets E s ps = (None, s')
           \<and> read_file (disk s') (n @ [47] @ f)
               = Some (concat (map (plaintext E k) (butlast ps))
                         @ rstrip 0 (plaintext E k (last ps)))"
proof -
  have good: "\<forall>i<length ps. 267 \<le> length (ps ! i)
          \<and> packet_number_of (ps ! i) = received_packets s + i + 1
          \<and> total_packets_of (ps ! i) = received_packets s + length ps
          \<and> utf8_decode (file_name_field (ps ! i)) = Some t
          \<and> length (ciphertext_of (ps ! i)) mod 16 = 0"
    using packets(2) session(4) by simp
  have acc: "[] = (if received_packets s = 0 then []
               else (case dir_content (disk s) n f of None \<Rightarrow> [] | Some c \<Rightarrow> c))"
    using session(4) by simp
  show ?thesis
    using submit_packets_from [OF names key session(1,2,3) dir packets(1) good acc, of E]
    by simp
qed

theorem in_order_transfer_reassembles_witness:
  "\<exists>s'. submit_packets example_env example_session
           [save_payload 1 2 [102] (replicate 16 65),
            save_payload 2 2 [102] ([66, 67] @ replicate 14 0)] = (None, s')
        \<and> read_file (disk s') [97, 47, 102] = Some (replicate 16 65 @ [66, 67])"
proof -
  let ?p1 = "save_payload 1 2 [102] (replicate 16 65)"
  let ?p2 = "save_payload 2 2 [102] ([66, 67] @ replicate 14 0)"
  let ?t = "map unat ([102] @ replicate 254 0 :: bytes)"
  have dec: "utf8_decode ([102] @ replicate 254 0) = Some ?t"
    by (rule utf8_decode_ascii) simp
  have session: "name example_session = Some [97]"
    "aes_key example_session = Some (replicate 32 7)" "running example_session"
    "received_packets example_session = 0"
    "\<forall>c. disk example_session [97] \<noteq> Some (File c)"
    by (simp_all add: example_session_def init_def)
  have names: "simple_name [97]" "strip 0 ?t = [102]" "simple_name [102]"
    using strip_padding [of "[102::nat]" 0 254] by (simp_all add: simple_name_def)
  have key: "length (replicate 32 (7::byte)) = 16 \<or> length (replicate 32 (7::byte)) = 24
               \<or> length (replicate 32 (7::byte)) = 32"
    by simp
  have packets: "\<forall>i<length [?p1, ?p2]. 267 \<le> length ([?p1, ?p2] ! i)
          \<and> packet_number_of ([?p1, ?p2] ! i) = i + 1
          \<and> total_packets_of ([?p1, ?p2] ! i) = length [?p1, ?p2]
          \<and> utf8_decode (file_name_field ([?p1, ?p2] ! i)) = Some ?t
          \<and> length (ciphertext_of ([?p1, ?p2] ! i)) mod 16 = 0"
    using dec by (auto simp: less_Suc_eq save_payload_fields)
  have plain: "plaintext example_env (replicate 32 7) ?p1 = replicate 16 65"
    "rstrip 0 (plaintext example_env (replicate 32 7) ?p2) = [66, 67]"
    using rstrip_padding [of "[66, 67 :: byte]" 0 14]
    by (simp_all add: plaintext_def example_env_def save_payload_fields)
  show ?thesis
    using in_order_transfer_reassembles
            [OF session(1,2,3,4) names key session(5) _ packets, of example_env] plain
    by simp
qed

end
